theory Spec2Isabelle
  imports Complex_Main "HOL-Library.AList" "HOL-Library.Sublist"
begin

section \<open>Python values and errors\<close>

text \<open>
  The exceptions that the modelled parts of \<^verbatim>\<open>main.py\<close> can raise. \<open>ValueError\<close> and
  \<open>KeyError\<close> carry their argument (the message, the missing key); \<open>SystemExit\<close> is what
  \<^verbatim>\<open>exit(n)\<close> raises; \<open>ExternalError\<close> stands for an exception raised inside a collaborator
  (the loaders, matplotlib).
\<close>

datatype error =
    IndexError
  | KeyError string
  | ValueError string
  | TypeError
  | SystemExit int
  | ExternalError string

text \<open>
  Indexing a Python list \<^verbatim>\<open>t[i]\<close>: an index in \<open>[0, len)\<close> reads from the front, an index
  in \<open>[-len, 0)\<close> reads from the back, anything else raises \<open>IndexError\<close>.
\<close>

definition getitem :: "'a list \<Rightarrow> int \<Rightarrow> error + 'a" where
  "getitem t i =
     (if 0 \<le> i \<and> i < int (length t) then Inr (t ! nat i)
      else if - int (length t) \<le> i \<and> i < 0 then Inr (t ! nat (int (length t) + i))
      else Inl IndexError)"

section \<open>The nearest-index search of \<^verbatim>\<open>mark_xdata\<close>\<close>

text \<open>
  \<^verbatim>\<open>mark_xdata\<close> (lines 228-258) runs, for every pair of \<^verbatim>\<open>plot_pair_data\<close>, a search over the
  pair's time list \<^verbatim>\<open>t\<close> for the target \<^verbatim>\<open>x\<close>. The search is modelled for one pair, as a
  function of the time list and the target; the result is the index that the loop hands to
  \<^verbatim>\<open>mark_time\<close> when it breaks, or the exception that leaves the loop. Time stamps are
  compared only with \<^verbatim>\<open><=\<close> and \<^verbatim>\<open><\<close>, so they are values of any linear order (floats
  without NaN are one). The only value the source ever binds to \<^verbatim>\<open>'t'\<close> is the list
  \<^verbatim>\<open>time_data\<close> (in the commented-out lines 478-483, the one place that fills
  \<^verbatim>\<open>plot_pair_data\<close>), so \<^verbatim>\<open>t[i]\<close> is the indexing of a Python list.

  \<^verbatim>\<open>distance = int(distance / 2)\<close> followed by the clamp \<^verbatim>\<open>if distance == 0: distance = 1\<close>;
  the distance starts at \<^verbatim>\<open>int(len(t) / 2)\<close> and is never negative, so it is a \<open>nat\<close>.
\<close>

definition halve_distance :: "nat \<Rightarrow> nat" where
  "halve_distance distance = (if distance div 2 = 0 then 1 else distance div 2)"

text \<open>
  The bracket test \<^verbatim>\<open>t[index] <= x and x < t[index+1]\<close>. Python's \<^verbatim>\<open>and\<close> does not
  evaluate \<^verbatim>\<open>t[index+1]\<close> when the first comparison is false.
\<close>

definition in_bracket :: "('a::linorder) list \<Rightarrow> 'a \<Rightarrow> int \<Rightarrow> error + bool" where
  "in_bracket t x index =
     (case getitem t index of
        Inl e \<Rightarrow> Inl e
      | Inr lo \<Rightarrow>
          if lo \<le> x then
            (case getitem t (index + 1) of Inl e \<Rightarrow> Inl e | Inr hi \<Rightarrow> Inr (x < hi))
          else Inr False)"

text \<open>
  The \<^verbatim>\<open>while True\<close> loop. It has no exit but \<^verbatim>\<open>break\<close> and an exception, so it is a
  partial function: \<open>None\<close> is a run that never leaves the loop.
\<close>

partial_function (option) mark_xdata_loop ::
  "('a::linorder) list \<Rightarrow> 'a \<Rightarrow> int \<Rightarrow> nat \<Rightarrow> (error + int) option" where
  "mark_xdata_loop t x index distance =
     (case in_bracket t x index of
        Inl e \<Rightarrow> Some (Inl e)
      | Inr found \<Rightarrow>
          if found then Some (Inr index)
          else
            (case getitem t (index + 1) of
               Inl e \<Rightarrow> Some (Inl e)
             | Inr hi \<Rightarrow>
                 if hi \<le> x
                 then mark_xdata_loop t x (index + int (halve_distance distance))
                        (halve_distance distance)
                 else mark_xdata_loop t x (index - int (halve_distance distance))
                        (halve_distance distance)))"

declare mark_xdata_loop.simps [code]

text \<open>The loop entered as the source does: \<^verbatim>\<open>index = int(len(t) / 2); distance = index\<close>.\<close>

definition mark_xdata_index :: "('a::linorder) list \<Rightarrow> 'a \<Rightarrow> (error + int) option" where
  "mark_xdata_index t x = mark_xdata_loop t x (int (length t div 2)) (length t div 2)"

section \<open>The rising-edge scan of the marker columns\<close>

text \<open>
  \<^verbatim>\<open>plot_pair_data\<close> is a module-level dict from a pair's name to the pair's series: the
  entry built in the commented-out lines 478-483 has the keys \<^verbatim>\<open>'x'\<close>, \<^verbatim>\<open>'y'\<close>, \<^verbatim>\<open>'t'\<close> and
  \<^verbatim>\<open>'axis'\<close>. The axis is only drawn on. The three series are indexed as Python sequences,
  and their values are compared only with \<^verbatim>\<open><=\<close>, \<^verbatim>\<open><\<close> and \<^verbatim>\<open>>\<close>.
\<close>

record 'a pair_entry =
  x_data :: "'a list"
  y_data :: "'a list"
  time_data :: "'a list"

text \<open>
  Line 99 binds \<^verbatim>\<open>plot_pair_data = {}\<close>, and no statement of the module assigns to it or
  stores into it afterwards (the lines that would are commented out): this is its value
  whenever \<^verbatim>\<open>main\<close> reaches the marker columns in line 500.
\<close>

definition plot_pair_data :: "(string \<times> 'a pair_entry) list" where
  "plot_pair_data = []"

text \<open>
  \<^verbatim>\<open>mark_time\<close> (lines 223-226) reads \<^verbatim>\<open>x[index]\<close> and \<^verbatim>\<open>y[index]\<close> of the pair, for the
  argument of \<^verbatim>\<open>debug\<close> and again for the call of \<^verbatim>\<open>scatter\<close>.
\<close>

definition mark_time :: "'a pair_entry \<Rightarrow> int \<Rightarrow> error + unit" where
  "mark_time d index =
     (case getitem (x_data d) index of
        Inl e \<Rightarrow> Inl e
      | Inr xv \<Rightarrow> (case getitem (y_data d) index of Inl e \<Rightarrow> Inl e | Inr yv \<Rightarrow> Inr ()))"

text \<open>
  \<^verbatim>\<open>mark_xdata\<close> (lines 228-258): for every pair of the dict, in its order, the search over
  the pair's time list and then \<^verbatim>\<open>mark_time\<close> at the index found. The result is the marks
  drawn (pair and index) and the exception that ended the call, if any; \<open>None\<close> is a
  search that never leaves its loop.
\<close>

fun mark_xdata ::
  "(string \<times> ('a::linorder) pair_entry) list \<Rightarrow> 'a \<Rightarrow> ((string \<times> int) list \<times> error option) option" where
  "mark_xdata [] x = Some ([], None)"
| "mark_xdata ((pair, d) # rest) x =
     (case mark_xdata_index (time_data d) x of
        None \<Rightarrow> None
      | Some (Inl e) \<Rightarrow> Some ([], Some e)
      | Some (Inr index) \<Rightarrow>
          (case mark_time d index of
             Inl e \<Rightarrow> Some ([], Some e)
           | Inr u \<Rightarrow>
               (case mark_xdata rest x of
                  None \<Rightarrow> None
                | Some (marks, r) \<Rightarrow> Some ((pair, index) # marks, r))))"

text \<open>
  Lines 513-519 of \<^verbatim>\<open>main\<close>, for one marker column whose specification has been split
  into column and threshold: with \<^verbatim>\<open>is_low = True\<close> before the loop, for each index \<^verbatim>\<open>i\<close> of
  the column's y series, \<^verbatim>\<open>if is_low and y[i] > rising_threshold\<close> reads \<^verbatim>\<open>x[i]\<close>, calls
  \<^verbatim>\<open>mark_xdata\<close> with it and sets \<^verbatim>\<open>is_low = False\<close>; \<^verbatim>\<open>elif y[i] < rising_threshold\<close> sets
  \<^verbatim>\<open>is_low = True\<close>. Nothing catches an exception of \<^verbatim>\<open>mark_xdata\<close>, so it ends the scan.
  \<open>marker_scan_from\<close> is the loop from index \<open>i\<close> on, with the current \<^verbatim>\<open>is_low\<close>, over the
  y values not yet visited; \<open>pairs\<close> is the whole dict, \<open>d\<close> the column's entry. The result
  is the indices at which \<^verbatim>\<open>mark_xdata\<close> was called, the marks drawn, and the exception that
  ended the scan, if any.
\<close>

fun marker_scan_from ::
  "(string \<times> ('a::linorder) pair_entry) list \<Rightarrow> 'a pair_entry \<Rightarrow> 'a \<Rightarrow> bool \<Rightarrow> nat \<Rightarrow> 'a list
     \<Rightarrow> (nat list \<times> (string \<times> int) list \<times> error option) option" where
  "marker_scan_from pairs d rising_threshold is_low i [] = Some ([], [], None)"
| "marker_scan_from pairs d rising_threshold is_low i (v # vs) =
     (if is_low \<and> v > rising_threshold then
        (case getitem (x_data d) (int i) of
           Inl e \<Rightarrow> Some ([], [], Some e)
         | Inr xv \<Rightarrow>
             (case mark_xdata pairs xv of
                None \<Rightarrow> None
              | Some (marks, Some e) \<Rightarrow> Some ([i], marks, Some e)
              | Some (marks, None) \<Rightarrow>
                  (case marker_scan_from pairs d rising_threshold False (Suc i) vs of
                     None \<Rightarrow> None
                   | Some (crossings, marks', r) \<Rightarrow> Some (i # crossings, marks @ marks', r))))
      else if v < rising_threshold
        then marker_scan_from pairs d rising_threshold True (Suc i) vs
      else marker_scan_from pairs d rising_threshold is_low (Suc i) vs)"

text \<open>
  The scan of one column: \<^verbatim>\<open>plot_pair_data[column]\<close> in line 514 raises \<open>KeyError\<close> when the
  dict has no such pair.
\<close>

definition marker_scan ::
  "(string \<times> ('a::linorder) pair_entry) list \<Rightarrow> string \<Rightarrow> 'a
     \<Rightarrow> (nat list \<times> (string \<times> int) list \<times> error option) option" where
  "marker_scan pairs column rising_threshold =
     (case map_of pairs column of
        None \<Rightarrow> Some ([], [], Some (KeyError column))
      | Some d \<Rightarrow> marker_scan_from pairs d rising_threshold True 0 (y_data d))"

text \<open>
  The detector \<^verbatim>\<open>detect_crossings\<close> in the words of the specification, a function of
  the y series and the threshold: a boolean "below threshold" state,
  initialised true; a value above the threshold met in that state flips it to false; a
  value below the threshold flips it back to true. \<open>below_state y thr k\<close> is the state
  in which the value at index \<open>k\<close> is met.
\<close>

fun below_state :: "('a::linorder) list \<Rightarrow> 'a \<Rightarrow> nat \<Rightarrow> bool" where
  "below_state y thr 0 = True"
| "below_state y thr (Suc k) =
     (if below_state y thr k \<and> y ! k > thr then False
      else if y ! k < thr then True
      else below_state y thr k)"

definition spec_crossings :: "('a::linorder) list \<Rightarrow> 'a \<Rightarrow> nat list" where
  "spec_crossings y thr = filter (\<lambda>k. below_state y thr k \<and> y ! k > thr) [0..<length y]"

section \<open>Plot entries and the two builders\<close>

text \<open>
  The values that plot entries hold. An entry is a Python \<^verbatim>\<open>dict\<close> with string keys; a
  dict keeps its keys in insertion order, so it is an association list in which every key
  occurs once. \<open>PAxis k\<close> is the axis \<^verbatim>\<open>axes[k]\<close>, \<open>PDataSource\<close> the object bound to the
  global \<^verbatim>\<open>data_source\<close>, \<open>PObj\<close> any other object of a collaborator (a column identifier,
  a data frame).
\<close>

datatype pyval =
    PNone
  | PBool bool
  | PInt int
  | PStr string
  | PList "pyval list"
  | PDict "(string \<times> pyval) list"
  | PAxis nat
  | PDataSource
  | PObj nat

type_synonym dict = "(string \<times> pyval) list"

definition dict_get :: "dict \<Rightarrow> string \<Rightarrow> error + pyval" where
  "dict_get d k = (case map_of d k of None \<Rightarrow> Inl (KeyError k) | Some v \<Rightarrow> Inr v)"

definition dict_set :: "dict \<Rightarrow> string \<Rightarrow> pyval \<Rightarrow> dict" where
  "dict_set d k v = AList.update k v d"

definition dict_has :: "dict \<Rightarrow> string \<Rightarrow> bool" where
  "dict_has d k = (map_of d k \<noteq> None)"

definition dict_keys :: "dict \<Rightarrow> string list" where
  "dict_keys d = map fst d"

subsection \<open>\<^verbatim>\<open>create_subplots_from_arguments\<close>\<close>

text \<open>
  \<^verbatim>\<open>pair.find(",")\<close>: the index of the first occurrence, or \<open>-1\<close>. Strings are lists of
  bytes here and of code points in Python; the comma is one byte and no byte of a longer
  UTF-8 sequence equals it, so splitting at it gives the same pieces.
\<close>

fun str_find :: "string \<Rightarrow> char \<Rightarrow> int" where
  "str_find [] c = - 1"
| "str_find (a # s) c =
     (if a = c then 0 else if str_find s c = - 1 then - 1 else str_find s c + 1)"

text \<open>
  Lines 299-307. \<^verbatim>\<open>pair.index(",")\<close> is evaluated only when \<^verbatim>\<open>find\<close> has found a comma,
  and then returns the same index; the slices \<^verbatim>\<open>pair[:k]\<close> and \<^verbatim>\<open>pair[k+1:]\<close> with
  \<open>0 \<le> k\<close> are \<open>take\<close> and \<open>drop\<close>.
\<close>

definition argument_entry :: "string \<Rightarrow> dict" where
  "argument_entry pair =
     (let comma_spot = str_find pair CHR '','' in
      if comma_spot \<noteq> - 1
      then [(''x'', PStr (take (nat comma_spot) pair)),
            (''y'', PStr (drop (nat comma_spot + 1) pair))]
      else [(''x'', PStr ''timestamp''), (''y'', PStr pair)])"

text \<open>
  One iteration of the loop of lines 293-307. The variable \<^verbatim>\<open>subplot\<close> is always the list
  object that was appended to \<^verbatim>\<open>subplots\<close> last, so \<^verbatim>\<open>subplot.append\<close> extends the last
  element of \<^verbatim>\<open>subplots\<close>.
\<close>

definition argument_step :: "string \<Rightarrow> dict list list \<Rightarrow> dict list list" where
  "argument_step pair subplots =
     (if pair = ''/'' then subplots @ [[]]
      else butlast subplots @ [last subplots @ [argument_entry pair]])"

definition create_subplots_from_arguments :: "string list \<Rightarrow> dict list list" where
  "create_subplots_from_arguments arguments = fold argument_step arguments [[]]"

subsection \<open>\<^verbatim>\<open>create_subplots_from_yaml\<close>\<close>

text \<open>
  The function starts with \<^verbatim>\<open>yaml.load\<close>, a collaborator; the model takes the loaded
  document in the declared format: a mapping whose key \<^verbatim>\<open>plots\<close> holds a mapping from
  subplot keys to sequences of entries, each entry a mapping.
\<close>

type_synonym yaml_plots = "(string \<times> dict list) list"
type_synonym yaml_doc = "(string \<times> yaml_plots) list"

text \<open>Lines 275-286, for one entry.\<close>

definition yaml_entry :: "dict \<Rightarrow> error + dict" where
  "yaml_entry entry =
     (case (if \<not> dict_has entry ''x'' then Inr (PStr ''timestamp'') else dict_get entry ''x'') of
        Inl e \<Rightarrow> Inl e
      | Inr x \<Rightarrow>
          (case dict_get entry ''y'' of
             Inl e \<Rightarrow> Inl e
           | Inr y \<Rightarrow>
               (case (if dict_has entry ''table'' then dict_get entry ''table'' else Inr PNone) of
                  Inl e \<Rightarrow> Inl e
                | Inr table \<Rightarrow>
                    Inr [(''x'', x), (''y'', y), (''table'', table), (''options'', PDict entry)])))"

text \<open>The inner loop of line 274: an exception in an entry leaves the function.\<close>

fun yaml_subplot :: "dict list \<Rightarrow> error + dict list" where
  "yaml_subplot [] = Inr []"
| "yaml_subplot (entry # entries) =
     (case yaml_entry entry of
        Inl e \<Rightarrow> Inl e
      | Inr plot \<Rightarrow>
          (case yaml_subplot entries of Inl e \<Rightarrow> Inl e | Inr subplot \<Rightarrow> Inr (plot # subplot)))"

text \<open>
  The outer loop of line 271 over the keys of \<^verbatim>\<open>contents['plots']\<close>, in their order; each
  key occurs once in a dict, so \<^verbatim>\<open>contents['plots'][key]\<close> is the value stored with it.
\<close>

fun yaml_subplots :: "yaml_plots \<Rightarrow> error + dict list list" where
  "yaml_subplots [] = Inr []"
| "yaml_subplots ((key, entries) # rest) =
     (case yaml_subplot entries of
        Inl e \<Rightarrow> Inl e
      | Inr subplot \<Rightarrow>
          (case yaml_subplots rest of Inl e \<Rightarrow> Inl e | Inr subplots \<Rightarrow> Inr (subplot # subplots)))"

definition create_subplots_from_yaml :: "yaml_doc \<Rightarrow> error + dict list list" where
  "create_subplots_from_yaml contents =
     (case map_of contents ''plots'' of
        None \<Rightarrow> Inl (KeyError ''plots'')
      | Some plots \<Rightarrow> yaml_subplots plots)"

section \<open>Column resolution, gathering and the order of \<^verbatim>\<open>main\<close>\<close>

text \<open>
  The data source is a collaborator (\<^verbatim>\<open>LogLoader\<close>, \<^verbatim>\<open>NetworkTablesLoader\<close>); the model
  takes its methods as parameters. The two lookups return an identifier or \<^verbatim>\<open>None\<close>.
  \<^verbatim>\<open>gather\<close> is called on the object stored in the entry, may raise, and may change the
  state \<open>'s\<close> of the source (its read cursor).
\<close>

record 's data_source =
  find_column_identifier :: "string \<Rightarrow> pyval"
  find_column_timestamp_identifier :: "string \<Rightarrow> pyval"
  gather :: "pyval \<Rightarrow> 's \<Rightarrow> pyval \<Rightarrow> pyval \<Rightarrow> bool \<Rightarrow> (error + pyval) \<times> 's"

text \<open>The calls that \<^verbatim>\<open>main\<close> makes on its collaborators, in the order it makes them.\<close>

datatype event =
    UseAgg
  | NewLogLoader
  | LoadFiles "string list"
  | NewNetworkTables string
  | OpenNetwork
  | ListVariables
  | Subplots nat
  | FindColumn string
  | FindTimestamp string
  | SetAspect nat
  | SetTitle nat pyval
  | GatherNewData

text \<open>The two column lookups among them.\<close>

definition is_lookup :: "event \<Rightarrow> bool" where
  "is_lookup ev = (case ev of FindColumn n \<Rightarrow> True | FindTimestamp n \<Rightarrow> True | _ \<Rightarrow> False)"

subsection \<open>\<^verbatim>\<open>gather_new_data\<close>\<close>

text \<open>
  Lines 169-171 for one entry: the right-hand side is evaluated first (the three
  subscripts, then the call), then the result is stored under \<^verbatim>\<open>'data'\<close>.
\<close>

definition gather_entry ::
  "(pyval \<Rightarrow> 's \<Rightarrow> pyval \<Rightarrow> pyval \<Rightarrow> bool \<Rightarrow> (error + pyval) \<times> 's) \<Rightarrow> 's \<Rightarrow> dict \<Rightarrow> bool
     \<Rightarrow> (error + dict) \<times> 's" where
  "gather_entry g s plot_entry animate =
     (case dict_get plot_entry ''data_source'' of
        Inl e \<Rightarrow> (Inl e, s)
      | Inr src \<Rightarrow>
          (case dict_get plot_entry ''xident'' of
             Inl e \<Rightarrow> (Inl e, s)
           | Inr xident \<Rightarrow>
               (case dict_get plot_entry ''yident'' of
                  Inl e \<Rightarrow> (Inl e, s)
                | Inr yident \<Rightarrow>
                    (case g src s xident yident animate of
                       (Inl e, s') \<Rightarrow> (Inl e, s')
                     | (Inr d, s') \<Rightarrow> (Inr (dict_set plot_entry ''data'' d), s')))))"

text \<open>
  The loop of line 167. The entries are mutated in place, so when an exception leaves the
  loop the entries visited before keep their new \<^verbatim>\<open>'data'\<close>; the result is the exception
  (if any), the list as it is afterwards, and the state of the source. The entries are
  passed as values: \<^verbatim>\<open>main\<close> appends every entry dict to \<^verbatim>\<open>plot_info\<close> once, and both
  builders make a new dict for every entry, so no two positions of the list hold the same
  object.
\<close>

fun gather_new_data ::
  "(pyval \<Rightarrow> 's \<Rightarrow> pyval \<Rightarrow> pyval \<Rightarrow> bool \<Rightarrow> (error + pyval) \<times> 's) \<Rightarrow> 's \<Rightarrow> dict list \<Rightarrow> bool
     \<Rightarrow> error option \<times> dict list \<times> 's" where
  "gather_new_data g s [] animate = (None, [], s)"
| "gather_new_data g s (plot_entry # rest) animate =
     (case gather_entry g s plot_entry animate of
        (Inl e, s') \<Rightarrow> (Some e, plot_entry # rest, s')
      | (Inr plot_entry', s') \<Rightarrow>
          (case gather_new_data g s' rest animate of
             (r, rest', s'') \<Rightarrow> (r, plot_entry' # rest', s'')))"

subsection \<open>Resolving one entry (lines 372-402)\<close>

text \<open>Truth value of a Python object, \<^verbatim>\<open>k in v\<close> and \<^verbatim>\<open>v[k]\<close> for a string \<^verbatim>\<open>k\<close>.\<close>

fun truthy :: "pyval \<Rightarrow> bool" where
  "truthy PNone = False"
| "truthy (PBool b) = b"
| "truthy (PInt n) = (n \<noteq> 0)"
| "truthy (PStr s) = (s \<noteq> [])"
| "truthy (PList l) = (l \<noteq> [])"
| "truthy (PDict d) = (d \<noteq> [])"
| "truthy (PAxis k) = True"
| "truthy PDataSource = True"
| "truthy (PObj k) = True"

fun contains :: "pyval \<Rightarrow> string \<Rightarrow> error + bool" where
  "contains (PDict d) k = Inr (dict_has d k)"
| "contains (PStr s) k = Inr (sublist k s)"
| "contains (PList l) k = Inr (PStr k \<in> set l)"
| "contains v k = Inl TypeError"

fun subscript :: "pyval \<Rightarrow> string \<Rightarrow> error + pyval" where
  "subscript (PDict d) k = dict_get d k"
| "subscript v k = Inl TypeError"

text \<open>
  Lines 398-401: the display options applied to the axis, as the list of calls made.
  Each condition evaluates \<^verbatim>\<open>entry['options']\<close> again.
\<close>

definition apply_options :: "nat \<Rightarrow> dict \<Rightarrow> error + event list" where
  "apply_options axis_index entry =
     (case dict_get entry ''options'' of
        Inl e \<Rightarrow> Inl e
      | Inr options \<Rightarrow>
          (case contains options ''fixedAspect'' of
             Inl e \<Rightarrow> Inl e
           | Inr has_aspect \<Rightarrow>
               (case (if has_aspect then subscript options ''fixedAspect'' else Inr PNone) of
                  Inl e \<Rightarrow> Inl e
                | Inr aspect \<Rightarrow>
                    (case contains options ''title'' of
                       Inl e \<Rightarrow> Inl e
                     | Inr has_title \<Rightarrow>
                         (case (if has_title then subscript options ''title'' else Inr PNone) of
                            Inl e \<Rightarrow> Inl e
                          | Inr title \<Rightarrow>
                              Inr ((if has_aspect \<and> truthy aspect then [SetAspect axis_index] else [])
                                   @ (if has_title then [SetTitle axis_index title] else [])))))))"

text \<open>The identifier of the x column, lines 382-385.\<close>

definition resolve_x :: "'s data_source \<Rightarrow> string \<Rightarrow> string \<Rightarrow> pyval" where
  "resolve_x ds x y =
     (if x = ''timestamp'' then find_column_timestamp_identifier ds y
      else find_column_identifier ds x)"

definition x_lookup :: "string \<Rightarrow> string \<Rightarrow> event" where
  "x_lookup x y = (if x = ''timestamp'' then FindTimestamp y else FindColumn x)"

text \<open>
  The body of the loop over the entries of one subplot. The argument of the first
  \<^verbatim>\<open>debug\<close> call, \<^verbatim>\<open>"checking data for: " + x + ", " + y\<close>, is evaluated whether or not
  debugging is on, and raises \<open>TypeError\<close> unless both names are strings. The result is the
  calls made and either the exception or the entry as appended to \<^verbatim>\<open>plot_info\<close>.
\<close>

definition resolve_entry :: "'s data_source \<Rightarrow> nat \<Rightarrow> dict \<Rightarrow> event list \<times> (error + dict)" where
  "resolve_entry ds axis_index entry =
     (case dict_get entry ''x'' of
        Inl e \<Rightarrow> ([], Inl e)
      | Inr xv \<Rightarrow>
          (case dict_get entry ''y'' of
             Inl e \<Rightarrow> ([], Inl e)
           | Inr yv \<Rightarrow>
               (case (xv, yv) of
                  (PStr x, PStr y) \<Rightarrow>
                    (let yident = find_column_identifier ds y;
                         xident = resolve_x ds x y;
                         lookups = [FindColumn y, x_lookup x y]
                     in if xident = PNone
                        then (lookups,
                              Inl (ValueError (''failed to find x data for '' @ x
                                               @ '' (with y of '' @ y @ '') '')))
                        else if yident = PNone
                        then (lookups, Inl (ValueError (''failed to find y data for '' @ y)))
                        else
                          (let entry' =
                                 dict_set (dict_set (dict_set (dict_set entry
                                   ''xident'' xident) ''yident'' yident)
                                   ''axis'' (PAxis axis_index)) ''data_source'' PDataSource
                           in case apply_options axis_index entry' of
                                Inl e \<Rightarrow> (lookups, Inl e)
                              | Inr calls \<Rightarrow> (lookups @ calls, Inr entry')))
                | _ \<Rightarrow> ([], Inl TypeError))))"

text \<open>The loops of lines 370-371; \<open>resolve_plots\<close> returns \<^verbatim>\<open>plot_info\<close>.\<close>

fun resolve_subplot ::
  "'s data_source \<Rightarrow> nat \<Rightarrow> dict list \<Rightarrow> event list \<times> (error + dict list)" where
  "resolve_subplot ds axis_index [] = ([], Inr [])"
| "resolve_subplot ds axis_index (entry # rest) =
     (case resolve_entry ds axis_index entry of
        (ev, Inl e) \<Rightarrow> (ev, Inl e)
      | (ev, Inr entry') \<Rightarrow>
          (case resolve_subplot ds axis_index rest of
             (ev', Inl e) \<Rightarrow> (ev @ ev', Inl e)
           | (ev', Inr rest') \<Rightarrow> (ev @ ev', Inr (entry' # rest'))))"

fun resolve_plots ::
  "'s data_source \<Rightarrow> nat \<Rightarrow> dict list list \<Rightarrow> event list \<times> (error + dict list)" where
  "resolve_plots ds axis_index [] = ([], Inr [])"
| "resolve_plots ds axis_index (subplot # rest) =
     (case resolve_subplot ds axis_index subplot of
        (ev, Inl e) \<Rightarrow> (ev, Inl e)
      | (ev, Inr info) \<Rightarrow>
          (case resolve_plots ds (Suc axis_index) rest of
             (ev', Inl e) \<Rightarrow> (ev @ ev', Inl e)
           | (ev', Inr info') \<Rightarrow> (ev @ ev', Inr (info @ info'))))"

subsection \<open>\<^verbatim>\<open>main\<close> up to the plotting loop (lines 310-406)\<close>

text \<open>
  The parsed command line, as far as these lines read it. \<open>yaml_plot\<close> is the document
  that \<^verbatim>\<open>yaml.load\<close> reads from the file given with \<^verbatim>\<open>-y\<close>.
\<close>

record args =
  plot_pairs :: "string list option"
  yaml_plot :: "yaml_doc option"
  output_file :: "string option"
  log_files :: "string list option"
  network_server :: "string option"
  list_variables :: bool
  animate :: bool

text \<open>Truth value of an optional list or string: \<^verbatim>\<open>None\<close> and the empty one are false.\<close>

definition given :: "'a list option \<Rightarrow> bool" where
  "given v = (case v of None \<Rightarrow> False | Some l \<Rightarrow> l \<noteq> [])"

text \<open>The list or string itself, read only where it is given.\<close>

definition arg_value :: "'a list option \<Rightarrow> 'a list" where
  "arg_value v = (case v of None \<Rightarrow> [] | Some l \<Rightarrow> l)"

text \<open>Lines 319-322. \<^verbatim>\<open>yaml.load(None)\<close> raises inside the YAML library.\<close>

definition build_plots :: "args \<Rightarrow> error + dict list list" where
  "build_plots a =
     (if given (plot_pairs a)
      then Inr (create_subplots_from_arguments (arg_value (plot_pairs a)))
      else (case yaml_plot a of
              None \<Rightarrow> Inl (ExternalError ''yaml.load'')
            | Some contents \<Rightarrow> create_subplots_from_yaml contents))"

text \<open>Lines 327-337: the data source is constructed and opened, or \<^verbatim>\<open>exit(1)\<close>.\<close>

definition open_data_source :: "args \<Rightarrow> error + event list" where
  "open_data_source a =
     (if given (log_files a)
      then Inr [NewLogLoader, LoadFiles (arg_value (log_files a))]
      else if given (network_server a)
      then Inr [NewNetworkTables (arg_value (network_server a)), OpenNetwork]
      else Inl (SystemExit 1))"

text \<open>
  \<^verbatim>\<open>main\<close> from the call of \<^verbatim>\<open>parse_args\<close> (with its check of line 150) to the call of
  \<^verbatim>\<open>gather_new_data\<close> in line 406. The result is the calls made on the collaborators and
  either the exception that ends the session or \<^verbatim>\<open>plot_info\<close> as the plotting loop of
  line 412 receives it. \<^verbatim>\<open>plt.subplots(nrows=len(plots), ncols=1)\<close> in line 352 is given no
  rows when the YAML document has no subplot; matplotlib refuses that with an exception.
\<close>

definition main :: "'s data_source \<Rightarrow> 's \<Rightarrow> args \<Rightarrow> event list \<times> (error + dict list \<times> 's)" where
  "main ds s a =
     (if \<not> given (plot_pairs a) \<and> \<not> list_variables a \<and> yaml_plot a = None
      then ([], Inl (SystemExit 1))
      else
        (let ev0 = (if given (output_file a) then [UseAgg] else []) in
         case build_plots a of
           Inl e \<Rightarrow> (ev0, Inl e)
         | Inr plots \<Rightarrow>
             (case open_data_source a of
                Inl e \<Rightarrow> (ev0, Inl e)
              | Inr ev1 \<Rightarrow>
                  if list_variables a then (ev0 @ ev1 @ [ListVariables], Inl (SystemExit 0))
                  else if plots = []
                  then (ev0 @ ev1 @ [Subplots 0], Inl (ExternalError ''plt.subplots''))
                  else
                    (case resolve_plots ds 0 plots of
                       (ev2, Inl e) \<Rightarrow> (ev0 @ ev1 @ [Subplots (length plots)] @ ev2, Inl e)
                     | (ev2, Inr plot_info) \<Rightarrow>
                         (case gather_new_data (gather ds) s plot_info (animate a) of
                            (Some e, plot_info', s') \<Rightarrow>
                              (ev0 @ ev1 @ [Subplots (length plots)] @ ev2 @ [GatherNewData],
                               Inl e)
                          | (None, plot_info', s') \<Rightarrow>
                              (ev0 @ ev1 @ [Subplots (length plots)] @ ev2 @ [GatherNewData],
                               Inr (plot_info', s')))))))"

section \<open>The search at and beyond the ends of the time list\<close>

text \<open>
  Claim C1. Over the time list \<open>[0, 1, 2, 3, 4]\<close> the search of \<^verbatim>\<open>mark_xdata\<close> is to return
  index 4 for the target 4.5, index 0 for the target -1 and index 2 for the target 2.3.
  The code returns 2 for the target 2.3. For 4.5 it walks right to index 4 and then reads
  \<^verbatim>\<open>t[5]\<close>; for -1 it walks left through the negative indices, which Python reads from the
  end of the list, until it reads \<^verbatim>\<open>t[-6]\<close>. Both runs end in \<open>IndexError\<close>.
\<close>

theorem mark_xdata_index_boundary_targets:
  "mark_xdata_index [0, 1, 2, 3, 4 :: rat] (9 / 2) = Some (Inl IndexError)
   \<and> mark_xdata_index [0, 1, 2, 3, 4 :: rat] (- 1) = Some (Inl IndexError)
   \<and> mark_xdata_index [0, 1, 2, 3, 4 :: rat] (23 / 10) = Some (Inr 2)"
  by code_simp

text \<open>
  Claim C2. For a strictly increasing time list and a target between its first and its
  last element the search is to stop at the index whose bracket holds the target. With
  two samples the search starts at index 1, the last one; the bracket test fails there,
  and the test for the direction of the jump reads \<^verbatim>\<open>t[2]\<close>: the run ends in \<open>IndexError\<close>.
\<close>

theorem mark_xdata_index_two_samples:
  "mark_xdata_index [0, 1 :: rat] (1 / 2) = Some (Inl IndexError)"
  by code_simp

subsection \<open>Three or more samples\<close>

lemma getitem_nat: "i < length t \<Longrightarrow> getitem t (int i) = Inr (t ! i)"
  by (simp add: getitem_def)

lemma strict_nth_mono:
  "sorted_wrt (<) (t :: ('a::linorder) list) \<Longrightarrow> i \<le> j \<Longrightarrow> j < length t \<Longrightarrow> t ! i \<le> t ! j"
  using sorted_wrt_nth_less [of "(<)" t i j] by (cases "i = j") auto

lemma in_bracket_found:
  "j + 1 < length t \<Longrightarrow> t ! j \<le> x \<Longrightarrow> x < t ! (j + 1) \<Longrightarrow> in_bracket t x (int j) = Inr True"
  using getitem_nat [of j t] getitem_nat [of "j + 1" t]
  by (simp add: in_bracket_def add.commute)

lemma in_bracket_left:
  assumes "sorted_wrt (<) t" "j + 1 < length t" "t ! j \<le> x" "i < j"
  shows "in_bracket t x (int i) = Inr False"
    and "getitem t (int i + 1) = Inr (t ! (i + 1))" and "t ! (i + 1) \<le> x"
proof -
  have a: "t ! (i + 1) \<le> t ! j"
    using assms by (intro strict_nth_mono) simp_all
  then show le: "t ! (i + 1) \<le> x"
    using assms(3) by simp
  have "t ! i \<le> t ! j"
    using assms by (intro strict_nth_mono) simp_all
  then have lo: "t ! i \<le> x"
    using assms(3) by simp
  show g: "getitem t (int i + 1) = Inr (t ! (i + 1))"
    using getitem_nat [of "i + 1" t] assms by (simp add: add.commute)
  show "in_bracket t x (int i) = Inr False"
    using getitem_nat [of i t] g lo le assms by (simp add: in_bracket_def)
qed

lemma in_bracket_right:
  assumes "sorted_wrt (<) t" "x < t ! (j + 1)" "j < i" "i + 1 < length t"
  shows "in_bracket t x (int i) = Inr False"
    and "getitem t (int i + 1) = Inr (t ! (i + 1))" and "\<not> t ! (i + 1) \<le> x"
proof -
  have "t ! (j + 1) \<le> t ! (i + 1)"
    using assms by (intro strict_nth_mono) simp_all
  then show "\<not> t ! (i + 1) \<le> x"
    using assms(2) by simp
  have "t ! (j + 1) \<le> t ! i"
    using assms by (intro strict_nth_mono) simp_all
  then have lo: "\<not> t ! i \<le> x"
    using assms(2) by simp
  show "getitem t (int i + 1) = Inr (t ! (i + 1))"
    using getitem_nat [of "i + 1" t] assms by (simp add: add.commute)
  show "in_bracket t x (int i) = Inr False"
    using getitem_nat [of i t] lo assms by (simp add: in_bracket_def)
qed

lemma loop_found:
  "j + 1 < length t \<Longrightarrow> t ! j \<le> x \<Longrightarrow> x < t ! (j + 1) \<Longrightarrow>
   mark_xdata_loop t x (int j) d = Some (Inr (int j))"
  by (subst mark_xdata_loop.simps) (simp add: in_bracket_found)

lemma loop_step_right:
  assumes "sorted_wrt (<) t" "j + 1 < length t" "t ! j \<le> x" "i < j"
  shows "mark_xdata_loop t x (int i) d
           = mark_xdata_loop t x (int (i + halve_distance d)) (halve_distance d)"
  using in_bracket_left [OF assms] by (subst mark_xdata_loop.simps) simp

lemma loop_step_left:
  assumes "sorted_wrt (<) t" "x < t ! (j + 1)" "j < i" "i + 1 < length t"
    and "halve_distance d \<le> i"
  shows "mark_xdata_loop t x (int i) d
           = mark_xdata_loop t x (int (i - halve_distance d)) (halve_distance d)"
  using assms(5) in_bracket_right [OF assms(1-4)]
  by (subst mark_xdata_loop.simps) simp

lemma halve_distance_small: "d \<le> 3 \<Longrightarrow> halve_distance d = 1"
  by (auto simp add: halve_distance_def)

lemma halve_distance_large: "4 \<le> d \<Longrightarrow> halve_distance d = d div 2"
  by (auto simp add: halve_distance_def)

lemma loop_walk:
  assumes s: "sorted_wrt (<) t" and j: "j + 1 < length t" and lo: "t ! j \<le> x"
    and hi: "x < t ! (j + 1)"
  shows "d \<le> 3 \<Longrightarrow> i + 1 < length t \<Longrightarrow> mark_xdata_loop t x (int i) d = Some (Inr (int j))"
proof (induction "if i < j then j - i else i - j" arbitrary: i d)
  case 0
  then have "i = j" by (simp split: if_splits)
  then show ?case using loop_found [OF j lo hi] by simp
next
  case (Suc m)
  have h: "halve_distance d = 1"
    using Suc.prems(1) by (rule halve_distance_small)
  show ?case
  proof (cases "i < j")
    case True
    have "mark_xdata_loop t x (int i) d = mark_xdata_loop t x (int (i + 1)) 1"
      using loop_step_right [OF s j lo True, of d] by (simp add: h)
    also have "\<dots> = Some (Inr (int j))"
    proof (rule Suc.hyps(1))
      show "m = (if i + 1 < j then j - (i + 1) else i + 1 - j)"
        using Suc.hyps(2) True by auto
      show "(1::nat) \<le> 3" by simp
      show "i + 1 + 1 < length t"
        using True j by simp
    qed
    finally show ?thesis .
  next
    case False
    then have gt: "j < i"
      using Suc.hyps(2) by (simp split: if_splits)
    have "mark_xdata_loop t x (int i) d = mark_xdata_loop t x (int (i - 1)) 1"
      using loop_step_left [OF s hi gt Suc.prems(2), of d] gt by (simp add: h)
    also have "\<dots> = Some (Inr (int j))"
    proof (rule Suc.hyps(1))
      show "m = (if i - 1 < j then j - (i - 1) else i - 1 - j)"
        using Suc.hyps(2) gt by auto
      show "(1::nat) \<le> 3" by simp
      show "i - 1 + 1 < length t"
        using Suc.prems(2) by simp
    qed
    finally show ?thesis .
  qed
qed

lemma loop_jump:
  assumes s: "sorted_wrt (<) t" and j: "j + 1 < length t" and lo: "t ! j \<le> x"
    and hi: "x < t ! (j + 1)"
  shows "d - 2 \<le> i \<Longrightarrow> i + (d - 2) + 1 < length t \<Longrightarrow>
         mark_xdata_loop t x (int i) d = Some (Inr (int j))"
proof (induction d arbitrary: i rule: less_induct)
  case (less d)
  have i: "i + 1 < length t"
    using less.prems(2) by simp
  show ?case
  proof (cases "d \<le> 3")
    case True
    then show ?thesis using i by (rule loop_walk [OF s j lo hi])
  next
    case False
    then have d: "4 \<le> d" by simp
    have h: "halve_distance d = d div 2"
      using d by (rule halve_distance_large)
    have h2: "2 \<le> d div 2" "d div 2 < d" "2 * (d div 2) \<le> d"
      using d by simp_all
    consider "i = j" | "i < j" | "j < i" by linarith
    then show ?thesis
    proof cases
      case 1
      then show ?thesis using loop_found [OF j lo hi] by simp
    next
      case 2
      have "mark_xdata_loop t x (int i) d = mark_xdata_loop t x (int (i + d div 2)) (d div 2)"
        using loop_step_right [OF s j lo 2, of d] by (simp add: h)
      also have "\<dots> = Some (Inr (int j))"
        using less.prems h2 by (intro less.IH) simp_all
      finally show ?thesis .
    next
      case 3
      have le: "d div 2 \<le> i"
        using less.prems(1) h2 by linarith
      have "mark_xdata_loop t x (int i) d = mark_xdata_loop t x (int (i - d div 2)) (d div 2)"
        using loop_step_left [OF s hi 3 i, of d] le by (simp add: h)
      also have "\<dots> = Some (Inr (int j))"
        using less.prems h2 le i by (intro less.IH) simp_all
      finally show ?thesis .
    qed
  qed
qed

lemma bracket_exists:
  assumes "1 < length (t :: ('a::linorder) list)" "t ! 0 \<le> x" "x < t ! (length t - 1)"
  shows "\<exists>j. j + 1 < length t \<and> t ! j \<le> x \<and> x < t ! (j + 1)"
proof -
  define k where "k = (LEAST k. x < t ! k)"
  have xk: "x < t ! k"
    unfolding k_def using assms(3) by (rule LeastI)
  have kn: "k \<le> length t - 1"
    unfolding k_def using assms(3) by (rule Least_le)
  have k0: "k \<noteq> 0"
  proof
    assume "k = 0"
    then show False using xk assms(2) by simp
  qed
  have "\<not> x < t ! (k - 1)"
    unfolding k_def using k0 k_def by (intro not_less_Least) simp
  then show ?thesis
    using xk kn k0 assms(1) by (intro exI [of _ "k - 1"]) (simp add: not_less)
qed

lemma bracket_unique:
  assumes s: "sorted_wrt (<) (t :: ('a::linorder) list)"
    and i: "i + 1 < length t" "t ! i \<le> x" "x < t ! (i + 1)"
    and j: "j + 1 < length t" "t ! j \<le> x" "x < t ! (j + 1)"
  shows "i = j"
proof (rule ccontr)
  assume "i \<noteq> j"
  then consider "i < j" | "j < i" by linarith
  then show False
  proof cases
    case 1
    have "t ! (i + 1) \<le> t ! j"
      using s 1 j(1) by (intro strict_nth_mono) simp_all
    then show False using i(3) j(2) by simp
  next
    case 2
    have "t ! (j + 1) \<le> t ! i"
      using s 2 i(1) by (intro strict_nth_mono) simp_all
    then show False using j(3) i(2) by simp
  qed
qed

text \<open>
  With three or more samples the search finds the bracket: for a strictly
  increasing time list and a target from its first element up to, but not including, its
  last, the loop ends, and it ends at the one index whose bracket holds the target.
\<close>

lemma mark_xdata_index_converges:
  assumes s: "sorted_wrt (<) (t :: ('a::linorder) list)" and n: "3 \<le> length t"
    and lo: "t ! 0 \<le> x" and hi: "x < t ! (length t - 1)"
  shows "\<exists>j. j + 1 < length t \<and> t ! j \<le> x \<and> x < t ! (j + 1)
           \<and> mark_xdata_index t x = Some (Inr (int j))
           \<and> (\<forall>i. i + 1 < length t \<and> t ! i \<le> x \<and> x < t ! (i + 1) \<longrightarrow> i = j)"
proof -
  obtain j where j: "j + 1 < length t" "t ! j \<le> x" "x < t ! (j + 1)"
    using bracket_exists [of t x] n lo hi by auto
  have "length t div 2 - 2 \<le> length t div 2"
    by simp
  moreover have "length t div 2 + (length t div 2 - 2) + 1 < length t"
    using n by (cases "2 \<le> length t div 2") auto
  ultimately have "mark_xdata_loop t x (int (length t div 2)) (length t div 2) = Some (Inr (int j))"
    by (rule loop_jump [OF s j])
  then have "mark_xdata_index t x = Some (Inr (int j))"
    by (simp add: mark_xdata_index_def)
  moreover have "\<forall>i. i + 1 < length t \<and> t ! i \<le> x \<and> x < t ! (i + 1) \<longrightarrow> i = j"
    using bracket_unique [OF s _ _ _ j] by blast
  ultimately show ?thesis
    using j by blast
qed

lemma mark_xdata_index_converges_example:
  "sorted_wrt (<) [0, 1, 2, 3, 4 :: rat] \<and> (3::nat) \<le> length [0, 1, 2, 3, 4 :: rat]
   \<and> (\<exists>j. mark_xdata_index [0, 1, 2, 3, 4 :: rat] (23 / 10) = Some (Inr (int j)))"
proof -
  have s: "sorted_wrt (<) [0, 1, 2, 3, 4 :: rat]" by simp
  have n: "3 \<le> length [0, 1, 2, 3, 4 :: rat]" by simp
  have lo: "[0, 1, 2, 3, 4 :: rat] ! 0 \<le> 23 / 10" by simp
  have hi: "23 / 10 < [0, 1, 2, 3, 4 :: rat] ! (length [0, 1, 2, 3, 4 :: rat] - 1)" by simp
  show ?thesis
    using mark_xdata_index_converges [OF s n lo hi] s by auto
qed


section \<open>The rising-edge scan\<close>

text \<open>
  The indices at which the scan calls \<^verbatim>\<open>mark_xdata\<close> are an initial part of the crossings
  of the specification's detector, and all of them when no exception ends the scan.
\<close>

lemma marker_scan_from_spec:
  "i \<le> length y \<Longrightarrow>
   marker_scan_from pairs d thr (below_state y thr i) i (drop i y) = Some (cs, ms, r) \<Longrightarrow>
   prefix cs (filter (\<lambda>k. below_state y thr k \<and> y ! k > thr) [i..<length y])
   \<and> (r = None \<longrightarrow> cs = filter (\<lambda>k. below_state y thr k \<and> y ! k > thr) [i..<length y])"
proof (induction "length y - i" arbitrary: i cs ms r)
  case 0
  then show ?case by simp
next
  case (Suc n)
  then have lt: "i < length y" by simp
  have dr: "drop i y = y ! i # drop (Suc i) y"
    using lt by (simp add: Cons_nth_drop_Suc)
  have up: "[i..<length y] = i # [Suc i..<length y]"
    using lt by (simp add: upt_conv_Cons)
  have n: "n = length y - Suc i"
    using Suc.hyps(2) by simp
  have le: "Suc i \<le> length y"
    using lt by simp
  note ih = Suc.hyps(1) [OF n le]
  show ?case
  proof (cases "below_state y thr i \<and> y ! i > thr")
    case True
    then have nxt: "below_state y thr (Suc i) = False" by simp
    show ?thesis
    proof (cases "getitem (x_data d) (int i)")
      case (Inl e)
      then have "cs = [] \<and> r = Some e"
        using Suc.prems(2) True by (simp add: dr)
      then show ?thesis by simp
    next
      case (Inr xv)
      show ?thesis
      proof (cases "mark_xdata pairs xv")
        case None
        then show ?thesis
          using Suc.prems(2) True Inr by (simp add: dr)
      next
        case (Some res)
        obtain marks r1 where res: "res = (marks, r1)" by (cases res)
        show ?thesis
        proof (cases r1)
          case (Some e)
          then have "cs = [i] \<and> r = Some e"
            using Suc.prems(2) True Inr \<open>mark_xdata pairs xv = Some res\<close> res by (simp add: dr)
          then show ?thesis using True by (simp add: up)
        next
          case None
          then obtain cs' ms' where
            rec: "marker_scan_from pairs d thr False (Suc i) (drop (Suc i) y) = Some (cs', ms', r)"
            and cs: "cs = i # cs'"
            using Suc.prems(2) True Inr \<open>mark_xdata pairs xv = Some res\<close> res
            by (auto simp add: dr split: option.splits)
          have "prefix cs' (filter (\<lambda>k. below_state y thr k \<and> y ! k > thr) [Suc i..<length y])
            \<and> (r = None \<longrightarrow> cs' = filter (\<lambda>k. below_state y thr k \<and> y ! k > thr) [Suc i..<length y])"
            using ih [of cs' ms' r] rec nxt by simp
          then show ?thesis
            using True cs by (simp add: up)
        qed
      qed
    qed
  next
    case False
    have rec: "marker_scan_from pairs d thr (below_state y thr (Suc i)) (Suc i) (drop (Suc i) y)
                 = Some (cs, ms, r)"
      using Suc.prems(2) False by (auto simp add: dr split: if_splits)
    have "prefix cs (filter (\<lambda>k. below_state y thr k \<and> y ! k > thr) [Suc i..<length y])
       \<and> (r = None \<longrightarrow> cs = filter (\<lambda>k. below_state y thr k \<and> y ! k > thr) [Suc i..<length y])"
      using ih [OF rec] .
    then show ?thesis
      using False by (auto simp add: up)
  qed
qed

lemma marker_scan_spec:
  assumes "map_of pairs column = Some d" and "marker_scan pairs column thr = Some (cs, ms, r)"
  shows "prefix cs (spec_crossings (y_data d) thr)
       \<and> (r = None \<longrightarrow> cs = spec_crossings (y_data d) thr)"
  using marker_scan_from_spec [of 0 "y_data d" pairs d thr cs ms r] assms
  by (simp add: marker_scan_def spec_crossings_def)

text \<open>
  The below-threshold state without the recursion: it is true at an index exactly when
  every earlier value strictly above the threshold is followed, before that index, by a
  value strictly below it.
\<close>

lemma below_state_rising:
  "below_state y thr k \<longleftrightarrow> (\<forall>j<k. y ! j > thr \<longrightarrow> (\<exists>m. j < m \<and> m < k \<and> y ! m < thr))"
proof (induction k)
  case 0
  then show ?case by simp
next
  case (Suc k)
  consider (above) "y ! k > thr" | (below) "y ! k < thr" | (equal) "y ! k = thr"
    by (metis not_less_iff_gr_or_eq)
  then show ?case
  proof cases
    case above
    have "\<not> (\<exists>m. k < m \<and> m < Suc k \<and> y ! m < thr)"
      by auto
    then have "\<not> (\<forall>j<Suc k. y ! j > thr \<longrightarrow> (\<exists>m. j < m \<and> m < Suc k \<and> y ! m < thr))"
      using above by blast
    moreover have "\<not> below_state y thr (Suc k)"
      using above by auto
    ultimately show ?thesis by simp
  next
    case below
    have "\<forall>j<Suc k. y ! j > thr \<longrightarrow> (\<exists>m. j < m \<and> m < Suc k \<and> y ! m < thr)"
    proof (intro allI impI)
      fix j assume j: "j < Suc k" and a: "y ! j > thr"
      have "j \<noteq> k" using a below by auto
      then have "j < k" using j by simp
      then show "\<exists>m. j < m \<and> m < Suc k \<and> y ! m < thr"
        using below by (intro exI [of _ k]) simp
    qed
    moreover have "below_state y thr (Suc k)"
      using below by auto
    ultimately show ?thesis by simp
  next
    case equal
    have "(\<forall>j<Suc k. y ! j > thr \<longrightarrow> (\<exists>m. j < m \<and> m < Suc k \<and> y ! m < thr))
          \<longleftrightarrow> (\<forall>j<k. y ! j > thr \<longrightarrow> (\<exists>m. j < m \<and> m < k \<and> y ! m < thr))"
    proof
      assume h: "\<forall>j<Suc k. y ! j > thr \<longrightarrow> (\<exists>m. j < m \<and> m < Suc k \<and> y ! m < thr)"
      show "\<forall>j<k. y ! j > thr \<longrightarrow> (\<exists>m. j < m \<and> m < k \<and> y ! m < thr)"
      proof (intro allI impI)
        fix j assume j: "j < k" and a: "y ! j > thr"
        then obtain m where m: "j < m" "m < Suc k" "y ! m < thr"
          using h by (meson less_Suc_eq)
        then have "m \<noteq> k" using equal by auto
        then show "\<exists>m. j < m \<and> m < k \<and> y ! m < thr"
          using m by (intro exI [of _ m]) simp
      qed
    next
      assume h: "\<forall>j<k. y ! j > thr \<longrightarrow> (\<exists>m. j < m \<and> m < k \<and> y ! m < thr)"
      show "\<forall>j<Suc k. y ! j > thr \<longrightarrow> (\<exists>m. j < m \<and> m < Suc k \<and> y ! m < thr)"
      proof (intro allI impI)
        fix j assume j: "j < Suc k" and a: "y ! j > thr"
        have "j \<noteq> k" using a equal by auto
        then have "j < k" using j by simp
        then obtain m where "j < m" "m < k" "y ! m < thr"
          using h a by blast
        then show "\<exists>m. j < m \<and> m < Suc k \<and> y ! m < thr"
          by (intro exI [of _ m]) simp
      qed
    qed
    moreover have "below_state y thr (Suc k) = below_state y thr k"
      using equal by simp
    ultimately show ?thesis using Suc by simp
  qed
qed

text \<open>
  Claim C3. The scan of a marker column in \<^verbatim>\<open>main\<close> is to emit a crossing at the indices
  where the below-threshold state is true and the value is strictly above the threshold,
  which for \<open>y = [0.1, 0.6, 0.4, 0.7, 0.3]\<close> and the threshold \<open>0.5\<close> are \<open>[1, 3]\<close>. In
  \<^verbatim>\<open>main\<close> the dict \<^verbatim>\<open>plot_pair_data\<close> is empty when the scan starts, so for every column
  and threshold line 514 raises \<open>KeyError\<close> and nothing is emitted. Were the dict filled
  with the example series and an empty time list (the value that \<^verbatim>\<open>time_data\<close> has where
  the commented-out lines store it), the first emission at index 1 would end the scan
  with the \<open>IndexError\<close> of the search. The crossings \<open>[1, 3]\<close> are emitted only when each
  search returns, as with the time list \<open>[0, 1, 2, 3, 4]\<close> and these as the x series.
\<close>

theorem marker_scan_in_main_raises:
  "marker_scan plot_pair_data column (thr :: 'a::linorder) = Some ([], [], Some (KeyError column))
   \<and> marker_scan [(''c'', \<lparr>x_data = [0, 1, 2, 3, 4],
                          y_data = [1 / 10, 6 / 10, 4 / 10, 7 / 10, 3 / 10 :: rat],
                          time_data = []\<rparr>)] ''c'' (1 / 2)
     = Some ([1], [], Some IndexError)
   \<and> marker_scan [(''c'', \<lparr>x_data = [0, 1, 2, 3, 4],
                          y_data = [1 / 10, 6 / 10, 4 / 10, 7 / 10, 3 / 10 :: rat],
                          time_data = [0, 1, 2, 3, 4]\<rparr>)] ''c'' (1 / 2)
     = Some ([1, 3], [(''c'', 1), (''c'', 3)], None)"
proof (intro conjI)
  show "marker_scan plot_pair_data column thr = Some ([], [], Some (KeyError column))"
    by (simp add: marker_scan_def plot_pair_data_def)
  show "marker_scan [(''c'', \<lparr>x_data = [0, 1, 2, 3, 4],
                          y_data = [1 / 10, 6 / 10, 4 / 10, 7 / 10, 3 / 10 :: rat],
                          time_data = []\<rparr>)] ''c'' (1 / 2)
     = Some ([1], [], Some IndexError)"
    by code_simp
  show "marker_scan [(''c'', \<lparr>x_data = [0, 1, 2, 3, 4],
                          y_data = [1 / 10, 6 / 10, 4 / 10, 7 / 10, 3 / 10 :: rat],
                          time_data = [0, 1, 2, 3, 4]\<rparr>)] ''c'' (1 / 2)
     = Some ([1, 3], [(''c'', 1), (''c'', 3)], None)"
    by code_simp
qed

section \<open>The builder for command-line arguments\<close>

lemma str_find_ge: "- 1 \<le> str_find s c"
  by (induction s) auto

lemma str_find_absent: "str_find s c = - 1 \<longleftrightarrow> c \<notin> set s"
proof (induction s)
  case Nil
  then show ?case by simp
next
  case (Cons a s)
  have "str_find s c + 1 \<noteq> - 1" using str_find_ge [of s c] by arith
  then show ?case using Cons by auto
qed

lemma str_find_first: "c \<notin> set x \<Longrightarrow> str_find (x @ c # y) c = int (length x)"
  by (induction x) auto

lemma argument_entry_split:
  "CHR '','' \<notin> set x \<Longrightarrow>
   argument_entry (x @ CHR '','' # y) = [(''x'', PStr x), (''y'', PStr y)]"
  by (simp add: argument_entry_def str_find_first)

lemma argument_entry_plain:
  "CHR '','' \<notin> set p \<Longrightarrow> argument_entry p = [(''x'', PStr ''timestamp''), (''y'', PStr p)]"
  using str_find_absent [of p "CHR '',''"] by (simp add: argument_entry_def)

lemma fold_argument_step_prefix:
  "fold argument_step bs (pre @ [s]) = pre @ fold argument_step bs [s]"
proof (induction bs arbitrary: pre s)
  case Nil
  then show ?case by simp
next
  case (Cons b bs)
  show ?case
  proof (cases "b = ''/''")
    case True
    have "fold argument_step (b # bs) (pre @ [s]) = fold argument_step bs ((pre @ [s]) @ [[]])"
      using True by (simp add: argument_step_def)
    also have "\<dots> = (pre @ [s]) @ fold argument_step bs [[]]"
      by (rule Cons.IH)
    also have "\<dots> = pre @ fold argument_step bs ([s] @ [[]])"
      using Cons.IH [of "[s]" "[]"] by simp
    also have "\<dots> = pre @ fold argument_step (b # bs) [s]"
      using True by (simp add: argument_step_def)
    finally show ?thesis .
  next
    case False
    then show ?thesis
      using Cons.IH [of pre "s @ [argument_entry b]"] by (simp add: argument_step_def)
  qed
qed

lemma create_subplots_separator:
  "create_subplots_from_arguments (as @ ''/'' # bs)
     = create_subplots_from_arguments as @ create_subplots_from_arguments bs"
proof -
  have "create_subplots_from_arguments (as @ ''/'' # bs)
          = fold argument_step bs (create_subplots_from_arguments as @ [[]])"
    by (simp add: create_subplots_from_arguments_def argument_step_def)
  then show ?thesis
    by (simp add: fold_argument_step_prefix create_subplots_from_arguments_def)
qed

text \<open>
  Claim C4. The tokens \<open>["a,b", "/", "c", "d"]\<close> give two subplots, the first with the one
  entry \<open>{x: a, y: b}\<close>, the second with \<open>{x: timestamp, y: c}\<close> and \<open>{x: timestamp, y: d}\<close>
  in that order. In general a \<open>/\<close> token starts a new subplot: the subplots of the tokens
  before it are followed by the subplots of the tokens after it. A token without a comma
  adds to the current (last) subplot an entry whose y is the token and whose x is the
  literal \<open>timestamp\<close>.
\<close>

theorem create_subplots_from_arguments_tokens:
  "create_subplots_from_arguments [''a,b'', ''/'', ''c'', ''d'']
     = [[[(''x'', PStr ''a''), (''y'', PStr ''b'')]],
        [[(''x'', PStr ''timestamp''), (''y'', PStr ''c'')],
         [(''x'', PStr ''timestamp''), (''y'', PStr ''d'')]]]
   \<and> create_subplots_from_arguments (as @ ''/'' # bs)
       = create_subplots_from_arguments as @ create_subplots_from_arguments bs
   \<and> (CHR '','' \<notin> set p \<and> p \<noteq> ''/'' \<longrightarrow>
        create_subplots_from_arguments (as @ [p])
          = butlast (create_subplots_from_arguments as)
            @ [last (create_subplots_from_arguments as)
               @ [[(''x'', PStr ''timestamp''), (''y'', PStr p)]]])"
proof (intro conjI impI)
  show "create_subplots_from_arguments [''a,b'', ''/'', ''c'', ''d'']
     = [[[(''x'', PStr ''a''), (''y'', PStr ''b'')]],
        [[(''x'', PStr ''timestamp''), (''y'', PStr ''c'')],
         [(''x'', PStr ''timestamp''), (''y'', PStr ''d'')]]]"
    by (simp add: create_subplots_from_arguments_def argument_step_def argument_entry_def)
  show "create_subplots_from_arguments (as @ ''/'' # bs)
       = create_subplots_from_arguments as @ create_subplots_from_arguments bs"
    by (rule create_subplots_separator)
  assume "CHR '','' \<notin> set p \<and> p \<noteq> ''/''"
  then show "create_subplots_from_arguments (as @ [p])
          = butlast (create_subplots_from_arguments as)
            @ [last (create_subplots_from_arguments as)
               @ [[(''x'', PStr ''timestamp''), (''y'', PStr p)]]]"
    by (simp add: create_subplots_from_arguments_def argument_step_def argument_entry_plain)
qed

theorem create_subplots_from_arguments_tokens_witness:
  "(CHR '','' \<notin> set ''c'' \<and> ''c'' \<noteq> ''/'')
   \<and> create_subplots_from_arguments ([''a,b''] @ ''/'' # [''c''])
       = [[[(''x'', PStr ''a''), (''y'', PStr ''b'')]],
          [[(''x'', PStr ''timestamp''), (''y'', PStr ''c'')]]]
   \<and> create_subplots_from_arguments ([''a,b'', ''/''] @ [''c''])
       = [[[(''x'', PStr ''a''), (''y'', PStr ''b'')]],
          [[(''x'', PStr ''timestamp''), (''y'', PStr ''c'')]]]"
  using create_subplots_from_arguments_tokens [of "[''a,b'']" "[''c'']" "''c''"]
    create_subplots_from_arguments_tokens [of "[''a,b'', ''/'']" "[]" "''c''"]
  by (simp add: create_subplots_from_arguments_def argument_step_def argument_entry_def)

text \<open>
  Claim C10. A pair token is split at its first comma only: for a token \<open>x,y\<close> in which
  \<open>x\<close> has no comma the entry has that \<open>x\<close> and the whole remainder \<open>y\<close>, commas included;
  put differently, for every token with a comma x is the part before the first comma and
  y is everything after it. The token \<open>a,b,c\<close> gives \<open>{x: a, y: b,c}\<close>.
\<close>

theorem argument_entry_first_comma:
  "(CHR '','' \<notin> set x \<longrightarrow>
      argument_entry (x @ '','' @ y) = [(''x'', PStr x), (''y'', PStr y)]
      \<and> create_subplots_from_arguments [x @ '','' @ y] = [[[(''x'', PStr x), (''y'', PStr y)]]])
   \<and> (CHR '','' \<in> set pair \<longrightarrow>
        argument_entry pair
          = [(''x'', PStr (takeWhile (\<lambda>c. c \<noteq> CHR '','') pair)),
             (''y'', PStr (tl (dropWhile (\<lambda>c. c \<noteq> CHR '','') pair)))])
   \<and> argument_entry ''a,b,c'' = [(''x'', PStr ''a''), (''y'', PStr ''b,c'')]"
proof (intro conjI impI)
  assume x: "CHR '','' \<notin> set x"
  show "argument_entry (x @ '','' @ y) = [(''x'', PStr x), (''y'', PStr y)]"
    using argument_entry_split [OF x, of y] by simp
  have "x @ '','' @ y \<noteq> ''/''"
    by (cases x) auto
  then show "create_subplots_from_arguments [x @ '','' @ y] = [[[(''x'', PStr x), (''y'', PStr y)]]]"
    using argument_entry_split [OF x, of y]
    by (simp add: create_subplots_from_arguments_def argument_step_def)
next
  assume "CHR '','' \<in> set pair"
  then obtain x y where p: "pair = x @ CHR '','' # y" and x: "CHR '','' \<notin> set x"
    by (meson split_list_first)
  have tw: "takeWhile (\<lambda>c. c \<noteq> CHR '','') pair = x"
    using x unfolding p by (induction x) auto
  have dw: "dropWhile (\<lambda>c. c \<noteq> CHR '','') pair = CHR '','' # y"
    using x unfolding p by (induction x) auto
  show "argument_entry pair
          = [(''x'', PStr (takeWhile (\<lambda>c. c \<noteq> CHR '','') pair)),
             (''y'', PStr (tl (dropWhile (\<lambda>c. c \<noteq> CHR '','') pair)))]"
    unfolding tw dw using argument_entry_split [OF x, of y] by (simp add: p)
next
  show "argument_entry ''a,b,c'' = [(''x'', PStr ''a''), (''y'', PStr ''b,c'')]"
    by (simp add: argument_entry_def)
qed

theorem argument_entry_first_comma_witness:
  "CHR '','' \<notin> set ''a'' \<and> CHR '','' \<in> set ''a,b,c''
   \<and> argument_entry (''a'' @ '','' @ ''b,c'') = [(''x'', PStr ''a''), (''y'', PStr ''b,c'')]
   \<and> create_subplots_from_arguments [''a'' @ '','' @ ''b,c'']
       = [[[(''x'', PStr ''a''), (''y'', PStr ''b,c'')]]]
   \<and> takeWhile (\<lambda>c. c \<noteq> CHR '','') ''a,b,c'' = ''a''
   \<and> tl (dropWhile (\<lambda>c. c \<noteq> CHR '','') ''a,b,c'') = ''b,c''"
  using argument_entry_first_comma [of "''a''" "''b,c''" "''a,b,c''"]
  by simp

section \<open>Entries of the two builders\<close>

lemma dict_get_dict_set_other:
  "k \<noteq> k' \<Longrightarrow> dict_get (dict_set d k' v) k = dict_get d k"
  by (simp add: dict_get_def dict_set_def update_conv')

lemma dict_get_dict_set_same: "dict_get (dict_set d k v) k = Inr v"
  by (simp add: dict_get_def dict_set_def update_conv')

text \<open>
  Claim C5. The entries of the two builders are to have the same keys, so that reading
  \<^verbatim>\<open>entry['options']\<close> or \<^verbatim>\<open>entry['table']\<close> behaves the same for both. In the code every
  entry built from the command line has the keys \<open>x\<close> and \<open>y\<close> only, while an entry built
  from YAML has \<open>x\<close>, \<open>y\<close>, \<open>table\<close> and \<open>options\<close>. With the one token \<open>c\<close>, a data source
  that knows the column, and log files given, \<^verbatim>\<open>main\<close> ends in \<open>KeyError\<close> on
  \<^verbatim>\<open>entry['options']\<close> in line 398; with the same plot given in YAML it reaches the
  plotting loop.
\<close>

theorem argument_entry_without_options:
  "dict_keys (argument_entry pair) = [''x'', ''y'']
   \<and> dict_get (argument_entry pair) ''options'' = Inl (KeyError ''options'')
   \<and> dict_get (argument_entry pair) ''table'' = Inl (KeyError ''table'')
   \<and> create_subplots_from_arguments [''c'']
       = [[[(''x'', PStr ''timestamp''), (''y'', PStr ''c'')]]]
   \<and> create_subplots_from_yaml [(''plots'', [(''p'', [[(''y'', PStr ''c'')]])])]
       = Inr [[[(''x'', PStr ''timestamp''), (''y'', PStr ''c''), (''table'', PNone),
                (''options'', PDict [(''y'', PStr ''c'')])]]]
   \<and> main \<lparr>find_column_identifier = (\<lambda>n. PObj 1),
            find_column_timestamp_identifier = (\<lambda>n. PObj 2),
            gather = (\<lambda>src s xi yi an. (Inr (PObj 3), s))\<rparr> ()
          \<lparr>plot_pairs = Some [''c''], yaml_plot = None, output_file = None,
           log_files = Some [''log.csv''], network_server = None,
           list_variables = False, animate = False\<rparr>
       = ([NewLogLoader, LoadFiles [''log.csv''], Subplots 1, FindColumn ''c'',
           FindTimestamp ''c''], Inl (KeyError ''options''))
   \<and> main \<lparr>find_column_identifier = (\<lambda>n. PObj 1),
            find_column_timestamp_identifier = (\<lambda>n. PObj 2),
            gather = (\<lambda>src s xi yi an. (Inr (PObj 3), s))\<rparr> ()
          \<lparr>plot_pairs = None,
           yaml_plot = Some [(''plots'', [(''p'', [[(''y'', PStr ''c'')]])])],
           output_file = None, log_files = Some [''log.csv''], network_server = None,
           list_variables = False, animate = False\<rparr>
       = ([NewLogLoader, LoadFiles [''log.csv''], Subplots 1, FindColumn ''c'',
           FindTimestamp ''c'', GatherNewData],
          Inr ([[(''x'', PStr ''timestamp''), (''y'', PStr ''c''), (''table'', PNone),
                 (''options'', PDict [(''y'', PStr ''c'')]), (''xident'', PObj 2),
                 (''yident'', PObj 1), (''axis'', PAxis 0), (''data_source'', PDataSource),
                 (''data'', PObj 3)]], ()))"
proof (intro conjI)
  show "dict_keys (argument_entry pair) = [''x'', ''y'']"
    by (simp add: argument_entry_def dict_keys_def Let_def)
  show "dict_get (argument_entry pair) ''options'' = Inl (KeyError ''options'')"
    by (simp add: argument_entry_def dict_get_def Let_def)
  show "dict_get (argument_entry pair) ''table'' = Inl (KeyError ''table'')"
    by (simp add: argument_entry_def dict_get_def Let_def)
  show "create_subplots_from_arguments [''c'']
       = [[[(''x'', PStr ''timestamp''), (''y'', PStr ''c'')]]]"
    by (simp add: create_subplots_from_arguments_def argument_step_def argument_entry_def)
  show "create_subplots_from_yaml [(''plots'', [(''p'', [[(''y'', PStr ''c'')]])])]
       = Inr [[[(''x'', PStr ''timestamp''), (''y'', PStr ''c''), (''table'', PNone),
                (''options'', PDict [(''y'', PStr ''c'')])]]]"
    by (simp add: create_subplots_from_yaml_def yaml_entry_def dict_has_def dict_get_def)
  show "main \<lparr>find_column_identifier = (\<lambda>n. PObj 1),
            find_column_timestamp_identifier = (\<lambda>n. PObj 2),
            gather = (\<lambda>src s xi yi an. (Inr (PObj 3), s))\<rparr> ()
          \<lparr>plot_pairs = Some [''c''], yaml_plot = None, output_file = None,
           log_files = Some [''log.csv''], network_server = None,
           list_variables = False, animate = False\<rparr>
       = ([NewLogLoader, LoadFiles [''log.csv''], Subplots 1, FindColumn ''c'',
           FindTimestamp ''c''], Inl (KeyError ''options''))"
    by (simp add: main_def build_plots_def given_def arg_value_def open_data_source_def
        create_subplots_from_arguments_def argument_step_def argument_entry_def
        resolve_entry_def resolve_x_def x_lookup_def apply_options_def
        dict_get_def dict_set_def)
  show "main \<lparr>find_column_identifier = (\<lambda>n. PObj 1),
            find_column_timestamp_identifier = (\<lambda>n. PObj 2),
            gather = (\<lambda>src s xi yi an. (Inr (PObj 3), s))\<rparr> ()
          \<lparr>plot_pairs = None,
           yaml_plot = Some [(''plots'', [(''p'', [[(''y'', PStr ''c'')]])])],
           output_file = None, log_files = Some [''log.csv''], network_server = None,
           list_variables = False, animate = False\<rparr>
       = ([NewLogLoader, LoadFiles [''log.csv''], Subplots 1, FindColumn ''c'',
           FindTimestamp ''c'', GatherNewData],
          Inr ([[(''x'', PStr ''timestamp''), (''y'', PStr ''c''), (''table'', PNone),
                 (''options'', PDict [(''y'', PStr ''c'')]), (''xident'', PObj 2),
                 (''yident'', PObj 1), (''axis'', PAxis 0), (''data_source'', PDataSource),
                 (''data'', PObj 3)]], ()))"
    by (simp add: main_def build_plots_def given_def arg_value_def open_data_source_def
        create_subplots_from_yaml_def yaml_entry_def dict_has_def
        resolve_entry_def resolve_x_def x_lookup_def apply_options_def gather_entry_def
        dict_get_def dict_set_def)
qed

section \<open>Column resolution\<close>

lemma apply_options_calls:
  "apply_options k e = Inr calls \<Longrightarrow> filter is_lookup calls = [] \<and> GatherNewData \<notin> set calls"
  by (auto simp add: apply_options_def is_lookup_def split: sum.splits if_splits)

lemma resolve_entry_success:
  assumes x: "dict_get entry ''x'' = Inr (PStr x)" and y: "dict_get entry ''y'' = Inr (PStr y)"
    and r: "snd (resolve_entry ds k entry) = Inr entry'"
  shows "dict_get entry' ''xident'' = Inr (resolve_x ds x y)"
    and "dict_get entry' ''yident'' = Inr (find_column_identifier ds y)"
  using r
  by (auto simp add: resolve_entry_def x y Let_def dict_get_dict_set_other dict_get_dict_set_same
      split: if_splits sum.splits)

lemma resolve_entry_lookups:
  assumes x: "dict_get entry ''x'' = Inr (PStr x)" and y: "dict_get entry ''y'' = Inr (PStr y)"
  shows "filter is_lookup (fst (resolve_entry ds k entry)) = [FindColumn y, x_lookup x y]"
  using apply_options_calls
  by (auto simp add: resolve_entry_def x y Let_def is_lookup_def x_lookup_def
      split: if_splits sum.splits)

lemma resolve_subplot_aborts:
  "entry \<in> set subplot \<Longrightarrow> (\<And>k. isl (snd (resolve_entry ds k entry))) \<Longrightarrow>
   isl (snd (resolve_subplot ds k subplot))"
proof (induction subplot)
  case Nil
  then show ?case by simp
next
  case (Cons e es)
  show ?case
  proof (cases "entry = e")
    case True
    then show ?thesis
      using Cons.prems(2) [of k] by (auto split: prod.splits sum.splits)
  next
    case False
    then have "isl (snd (resolve_subplot ds k es))"
      using Cons by simp
    then show ?thesis
      by (auto split: prod.splits sum.splits)
  qed
qed

lemma resolve_plots_aborts:
  "entry \<in> set (concat plots) \<Longrightarrow> (\<And>k. isl (snd (resolve_entry ds k entry))) \<Longrightarrow>
   isl (snd (resolve_plots ds k plots))"
proof (induction plots arbitrary: k)
  case Nil
  then show ?case by simp
next
  case (Cons sp rest)
  show ?case
  proof (cases "entry \<in> set sp")
    case True
    then have "isl (snd (resolve_subplot ds k sp))"
      using Cons.prems(2) by (rule resolve_subplot_aborts)
    then show ?thesis
      by (auto split: prod.splits sum.splits)
  next
    case False
    then have "entry \<in> set (concat rest)"
      using Cons.prems(1) by simp
    then have "isl (snd (resolve_plots ds (Suc k) rest))"
      using Cons.prems(2) by (rule Cons.IH)
    then show ?thesis
      by (auto split: prod.splits sum.splits)
  qed
qed

lemma resolve_entry_events:
  "GatherNewData \<notin> set (fst (resolve_entry ds k entry))"
  using apply_options_calls
  by (auto simp add: resolve_entry_def Let_def x_lookup_def split: sum.splits pyval.splits if_splits)

lemma resolve_subplot_events:
  "GatherNewData \<notin> set (fst (resolve_subplot ds k subplot))"
proof (induction subplot)
  case Nil
  then show ?case by simp
next
  case (Cons e es)
  have "GatherNewData \<notin> set (fst (resolve_entry ds k e))"
    by (rule resolve_entry_events)
  then show ?case
    using Cons by (auto split: prod.splits sum.splits)
qed

lemma resolve_plots_events:
  "GatherNewData \<notin> set (fst (resolve_plots ds k plots))"
proof (induction plots arbitrary: k)
  case Nil
  then show ?case by simp
next
  case (Cons sp rest)
  have "GatherNewData \<notin> set (fst (resolve_subplot ds k sp))"
    by (rule resolve_subplot_events)
  then show ?case
    using Cons [of "Suc k"] by (auto split: prod.splits sum.splits)
qed

lemma main_aborts:
  assumes b: "build_plots a = Inr plots" and e: "entry \<in> set (concat plots)"
    and f: "\<And>k. isl (snd (resolve_entry ds k entry))"
  shows "isl (snd (main ds s a)) \<and> GatherNewData \<notin> set (fst (main ds s a))"
proof -
  have r: "isl (snd (resolve_plots ds 0 plots))"
    using e f by (rule resolve_plots_aborts)
  have ev: "GatherNewData \<notin> set (fst (resolve_plots ds 0 plots))"
    by (rule resolve_plots_events)
  have o: "\<And>ev1. open_data_source a = Inr ev1 \<Longrightarrow> GatherNewData \<notin> set ev1"
    by (auto simp add: open_data_source_def split: if_splits)
  show ?thesis
    using r ev o
    by (auto simp add: main_def b Let_def split: sum.splits prod.splits option.splits)
qed

lemma apply_options_error:
  "apply_options k e = Inl err \<Longrightarrow> err \<noteq> SystemExit n"
  by (auto simp add: apply_options_def dict_get_def
      split: sum.splits if_splits option.splits pyval.splits elim!: contains.elims subscript.elims)

lemma resolve_entry_error:
  "snd (resolve_entry ds k e) = Inl err \<Longrightarrow> err \<noteq> SystemExit n"
  using apply_options_error
  by (auto simp add: resolve_entry_def dict_get_def Let_def
      split: sum.splits if_splits option.splits pyval.splits)

lemma resolve_subplot_error:
  "snd (resolve_subplot ds k es) = Inl err \<Longrightarrow> err \<noteq> SystemExit n"
proof (induction es)
  case Nil
  then show ?case by simp
next
  case (Cons e es)
  then show ?case
    using resolve_entry_error [of ds k e err n]
    by (auto split: prod.splits sum.splits)
qed

lemma resolve_plots_error:
  "snd (resolve_plots ds k ps) = Inl err \<Longrightarrow> err \<noteq> SystemExit n"
proof (induction ps arbitrary: k)
  case Nil
  then show ?case by simp
next
  case (Cons p ps)
  obtain ev1 r1 where r1: "resolve_subplot ds k p = (ev1, r1)"
    by (cases "resolve_subplot ds k p")
  obtain ev2 r2 where r2: "resolve_plots ds (Suc k) ps = (ev2, r2)"
    by (cases "resolve_plots ds (Suc k) ps")
  show ?case
  proof (cases r1)
    case (Inl e1)
    then have "e1 = err"
      using Cons.prems r1 by simp
    then show ?thesis
      using resolve_subplot_error [of ds k p err n] r1 Inl by simp
  next
    case (Inr info)
    then have "r2 = Inl err"
      using Cons.prems r1 r2 by (cases r2) simp_all
    then show ?thesis
      using Cons.IH [of "Suc k"] r2 by simp
  qed
qed

lemma main_aborts_with_exception:
  assumes b: "build_plots a = Inr plots" and e: "entry \<in> set (concat plots)"
    and f: "\<And>k. isl (snd (resolve_entry ds k entry))"
    and l: "\<not> list_variables a" and o: "given (log_files a) \<or> given (network_server a)"
  shows "\<exists>err. snd (main ds s a) = Inl err \<and> (\<forall>n. err \<noteq> SystemExit n)"
proof -
  have "isl (snd (resolve_plots ds 0 plots))"
    using e f by (rule resolve_plots_aborts)
  then obtain ev err where r: "resolve_plots ds 0 plots = (ev, Inl err)"
    by (cases "resolve_plots ds 0 plots") (auto simp add: isl_def)
  have "\<forall>n. err \<noteq> SystemExit n"
    using resolve_plots_error [of ds 0 plots err] r by simp
  moreover have "\<not> (\<not> given (plot_pairs a) \<and> \<not> list_variables a \<and> yaml_plot a = None)"
    using b by (auto simp add: build_plots_def)
  moreover have "plots \<noteq> []"
    using e by auto
  moreover have "\<exists>ev1. open_data_source a = Inr ev1"
    using o by (cases "given (log_files a)") (simp_all add: open_data_source_def)
  then obtain ev1 where "open_data_source a = Inr ev1" ..
  ultimately show ?thesis
    using l r by (simp add: main_def b Let_def)
qed

text \<open>
  Claim C7. When the x name of an entry is the literal \<open>timestamp\<close>, the x identifier is
  the result of \<^verbatim>\<open>find_column_timestamp_identifier(y)\<close>; for every other x name it is the
  result of \<^verbatim>\<open>find_column_identifier(x)\<close>. The lookups made for the entry are the plain
  lookup of y (for the y identifier) followed by that one lookup for x, so for a literal
  \<open>timestamp\<close> no plain lookup resolves x.
\<close>

theorem resolve_entry_x_lookup:
  assumes x: "dict_get entry ''x'' = Inr (PStr x)" and y: "dict_get entry ''y'' = Inr (PStr y)"
  shows "(x = ''timestamp'' \<longrightarrow>
           resolve_x ds x y = find_column_timestamp_identifier ds y
           \<and> filter is_lookup (fst (resolve_entry ds k entry)) = [FindColumn y, FindTimestamp y]
           \<and> (\<forall>entry'. snd (resolve_entry ds k entry) = Inr entry' \<longrightarrow>
                dict_get entry' ''xident'' = Inr (find_column_timestamp_identifier ds y)))
       \<and> (x \<noteq> ''timestamp'' \<longrightarrow>
           resolve_x ds x y = find_column_identifier ds x
           \<and> filter is_lookup (fst (resolve_entry ds k entry)) = [FindColumn y, FindColumn x]
           \<and> (\<forall>entry'. snd (resolve_entry ds k entry) = Inr entry' \<longrightarrow>
                dict_get entry' ''xident'' = Inr (find_column_identifier ds x)))"
  using resolve_entry_lookups [OF x y, of ds k] resolve_entry_success(1) [OF x y, of ds k]
  by (simp add: x_lookup_def resolve_x_def)

theorem resolve_entry_x_lookup_witness:
  "dict_get [(''x'', PStr ''timestamp''), (''y'', PStr ''c''), (''options'', PDict [])] ''x''
     = Inr (PStr ''timestamp'')
   \<and> dict_get [(''x'', PStr ''timestamp''), (''y'', PStr ''c''), (''options'', PDict [])] ''y''
     = Inr (PStr ''c'')
   \<and> snd (resolve_entry \<lparr>find_column_identifier = (\<lambda>n. PObj 1),
            find_column_timestamp_identifier = (\<lambda>n. PObj 2),
            gather = (\<lambda>src (s::unit) xi yi an. (Inr (PObj 3), s))\<rparr> 0
          [(''x'', PStr ''timestamp''), (''y'', PStr ''c''), (''options'', PDict [])])
     = Inr [(''x'', PStr ''timestamp''), (''y'', PStr ''c''), (''options'', PDict []),
            (''xident'', PObj 2), (''yident'', PObj 1), (''axis'', PAxis 0),
            (''data_source'', PDataSource)]
   \<and> filter is_lookup (fst (resolve_entry \<lparr>find_column_identifier = (\<lambda>n. PObj 1),
            find_column_timestamp_identifier = (\<lambda>n. PObj 2),
            gather = (\<lambda>src (s::unit) xi yi an. (Inr (PObj 3), s))\<rparr> 0
          [(''x'', PStr ''timestamp''), (''y'', PStr ''c''), (''options'', PDict [])]))
     = [FindColumn ''c'', FindTimestamp ''c'']
   \<and> dict_get [(''x'', PStr ''a''), (''y'', PStr ''c''), (''options'', PDict [])] ''x''
     = Inr (PStr ''a'')
   \<and> filter is_lookup (fst (resolve_entry \<lparr>find_column_identifier = (\<lambda>n. PObj 1),
            find_column_timestamp_identifier = (\<lambda>n. PObj 2),
            gather = (\<lambda>src (s::unit) xi yi an. (Inr (PObj 3), s))\<rparr> 0
          [(''x'', PStr ''a''), (''y'', PStr ''c''), (''options'', PDict [])]))
     = [FindColumn ''c'', FindColumn ''a'']"
proof -
  have x1: "dict_get [(''x'', PStr ''timestamp''), (''y'', PStr ''c''), (''options'', PDict [])] ''x''
     = Inr (PStr ''timestamp'')"
    by (simp add: dict_get_def)
  have y1: "dict_get [(''x'', PStr ''timestamp''), (''y'', PStr ''c''), (''options'', PDict [])] ''y''
     = Inr (PStr ''c'')"
    by (simp add: dict_get_def)
  have x2: "dict_get [(''x'', PStr ''a''), (''y'', PStr ''c''), (''options'', PDict [])] ''x''
     = Inr (PStr ''a'')"
    by (simp add: dict_get_def)
  have y2: "dict_get [(''x'', PStr ''a''), (''y'', PStr ''c''), (''options'', PDict [])] ''y''
     = Inr (PStr ''c'')"
    by (simp add: dict_get_def)
  have run: "snd (resolve_entry \<lparr>find_column_identifier = (\<lambda>n. PObj 1),
            find_column_timestamp_identifier = (\<lambda>n. PObj 2),
            gather = (\<lambda>src (s::unit) xi yi an. (Inr (PObj 3), s))\<rparr> 0
          [(''x'', PStr ''timestamp''), (''y'', PStr ''c''), (''options'', PDict [])])
     = Inr [(''x'', PStr ''timestamp''), (''y'', PStr ''c''), (''options'', PDict []),
            (''xident'', PObj 2), (''yident'', PObj 1), (''axis'', PAxis 0),
            (''data_source'', PDataSource)]"
    by (simp add: resolve_entry_def resolve_x_def x_lookup_def apply_options_def
        dict_get_def dict_set_def dict_has_def)
  show ?thesis
    using resolve_entry_x_lookup [OF x1 y1, of "\<lparr>find_column_identifier = (\<lambda>n. PObj 1),
            find_column_timestamp_identifier = (\<lambda>n. PObj 2),
            gather = (\<lambda>src (s::unit) xi yi an. (Inr (PObj 3), s))\<rparr>" 0]
      resolve_entry_x_lookup [OF x2 y2, of "\<lparr>find_column_identifier = (\<lambda>n. PObj 1),
            find_column_timestamp_identifier = (\<lambda>n. PObj 2),
            gather = (\<lambda>src (s::unit) xi yi an. (Inr (PObj 3), s))\<rparr>" 0] x1 y1 x2 run
    by simp
qed

text \<open>
  Claim C6. When the resolution of an entry's columns fails the session ends with an
  exception before the data is gathered and plotted. If the x identifier is \<^verbatim>\<open>None\<close> the
  exception is a \<open>ValueError\<close> whose message holds the x name and the y name it was
  resolved for; if only the y identifier is \<^verbatim>\<open>None\<close> the message holds the y name. For the
  session: whenever the plots hold such an entry, \<^verbatim>\<open>main\<close> does not reach
  \<^verbatim>\<open>gather_new_data\<close>, and once the data source is open (and the variables are not just
  listed) it ends with an exception that is not an \<^verbatim>\<open>exit\<close>.
\<close>

theorem column_not_found_is_fatal:
  assumes x: "dict_get entry ''x'' = Inr (PStr x)" and y: "dict_get entry ''y'' = Inr (PStr y)"
  shows "(resolve_x ds x y = PNone \<longrightarrow>
            snd (resolve_entry ds k entry)
              = Inl (ValueError (''failed to find x data for '' @ x @ '' (with y of '' @ y @ '') ''))
            \<and> sublist x (''failed to find x data for '' @ x @ '' (with y of '' @ y @ '') '')
            \<and> sublist y (''failed to find x data for '' @ x @ '' (with y of '' @ y @ '') ''))
       \<and> (resolve_x ds x y \<noteq> PNone \<and> find_column_identifier ds y = PNone \<longrightarrow>
            snd (resolve_entry ds k entry) = Inl (ValueError (''failed to find y data for '' @ y))
            \<and> sublist y (''failed to find y data for '' @ y))
       \<and> ((resolve_x ds x y = PNone \<or> find_column_identifier ds y = PNone)
            \<and> build_plots a = Inr plots \<and> entry \<in> set (concat plots) \<longrightarrow>
            isl (snd (main ds s a)) \<and> GatherNewData \<notin> set (fst (main ds s a))
            \<and> (\<not> list_variables a \<and> (given (log_files a) \<or> given (network_server a)) \<longrightarrow>
                 (\<exists>err. snd (main ds s a) = Inl err \<and> (\<forall>n. err \<noteq> SystemExit n))))"
proof (intro conjI impI)
  assume "resolve_x ds x y = PNone"
  then show "snd (resolve_entry ds k entry)
      = Inl (ValueError (''failed to find x data for '' @ x @ '' (with y of '' @ y @ '') ''))"
    by (simp add: resolve_entry_def x y Let_def)
next
  assume "resolve_x ds x y \<noteq> PNone \<and> find_column_identifier ds y = PNone"
  then show "snd (resolve_entry ds k entry) = Inl (ValueError (''failed to find y data for '' @ y))"
    by (simp add: resolve_entry_def x y Let_def)
next
  show "sublist x (''failed to find x data for '' @ x @ '' (with y of '' @ y @ '') '')"
    by (rule sublist_appendI)
  have "sublist y ((''failed to find x data for '' @ x @ '' (with y of '') @ y @ '') '')"
    by (rule sublist_appendI)
  then show "sublist y (''failed to find x data for '' @ x @ '' (with y of '' @ y @ '') '')"
    by simp
  have "sublist y (''failed to find y data for '' @ y @ [])"
    by (rule sublist_appendI)
  then show "sublist y (''failed to find y data for '' @ y)"
    by simp
next
  assume h: "(resolve_x ds x y = PNone \<or> find_column_identifier ds y = PNone)
            \<and> build_plots a = Inr plots \<and> entry \<in> set (concat plots)"
  have f: "\<And>j. isl (snd (resolve_entry ds j entry))"
    using h by (auto simp add: resolve_entry_def x y Let_def)
  have b: "build_plots a = Inr plots" and e: "entry \<in> set (concat plots)"
    using h by simp_all
  show "isl (snd (main ds s a))" and "GatherNewData \<notin> set (fst (main ds s a))"
    using main_aborts [OF b e f] by simp_all
  assume "\<not> list_variables a \<and> (given (log_files a) \<or> given (network_server a))"
  then show "\<exists>err. snd (main ds s a) = Inl err \<and> (\<forall>n. err \<noteq> SystemExit n)"
    using main_aborts_with_exception [OF b e f] by simp
qed

theorem column_not_found_is_fatal_witness:
  "dict_get [(''x'', PStr ''timestamp''), (''y'', PStr ''d''), (''table'', PNone),
             (''options'', PDict [(''y'', PStr ''d'')])] ''x'' = Inr (PStr ''timestamp'')
   \<and> dict_get [(''x'', PStr ''timestamp''), (''y'', PStr ''d''), (''table'', PNone),
             (''options'', PDict [(''y'', PStr ''d'')])] ''y'' = Inr (PStr ''d'')
   \<and> resolve_x \<lparr>find_column_identifier = (\<lambda>n. if n = ''c'' then PObj 1 else PNone),
            find_column_timestamp_identifier = (\<lambda>n. if n = ''c'' then PObj 2 else PNone),
            gather = (\<lambda>src (s::unit) xi yi an. (Inr (PObj 3), s))\<rparr> ''timestamp'' ''d'' = PNone
   \<and> build_plots \<lparr>plot_pairs = None,
           yaml_plot = Some [(''plots'', [(''p'', [[(''y'', PStr ''d'')]])])],
           output_file = None, log_files = Some [''log.csv''], network_server = None,
           list_variables = False, animate = False\<rparr>
       = Inr [[[(''x'', PStr ''timestamp''), (''y'', PStr ''d''), (''table'', PNone),
             (''options'', PDict [(''y'', PStr ''d'')])]]]
   \<and> main \<lparr>find_column_identifier = (\<lambda>n. if n = ''c'' then PObj 1 else PNone),
            find_column_timestamp_identifier = (\<lambda>n. if n = ''c'' then PObj 2 else PNone),
            gather = (\<lambda>src (s::unit) xi yi an. (Inr (PObj 3), s))\<rparr> ()
          \<lparr>plot_pairs = None,
           yaml_plot = Some [(''plots'', [(''p'', [[(''y'', PStr ''d'')]])])],
           output_file = None, log_files = Some [''log.csv''], network_server = None,
           list_variables = False, animate = False\<rparr>
       = ([NewLogLoader, LoadFiles [''log.csv''], Subplots 1, FindColumn ''d'',
           FindTimestamp ''d''],
          Inl (ValueError ''failed to find x data for timestamp (with y of d) ''))
   \<and> resolve_x \<lparr>find_column_identifier = (\<lambda>n. if n = ''c'' then PObj 1 else PNone),
            find_column_timestamp_identifier = (\<lambda>n. if n = ''c'' then PObj 2 else PNone),
            gather = (\<lambda>src (s::unit) xi yi an. (Inr (PObj 3), s))\<rparr> ''c'' ''d'' \<noteq> PNone
   \<and> dict_get [(''x'', PStr ''c''), (''y'', PStr ''d'')] ''x'' = Inr (PStr ''c'')
   \<and> snd (resolve_entry \<lparr>find_column_identifier = (\<lambda>n. if n = ''c'' then PObj 1 else PNone),
            find_column_timestamp_identifier = (\<lambda>n. if n = ''c'' then PObj 2 else PNone),
            gather = (\<lambda>src (s::unit) xi yi an. (Inr (PObj 3), s))\<rparr> 0
            [(''x'', PStr ''c''), (''y'', PStr ''d'')])
       = Inl (ValueError ''failed to find y data for d'')"
proof -
  let ?e = "[(''x'', PStr ''timestamp''), (''y'', PStr ''d''), (''table'', PNone),
             (''options'', PDict [(''y'', PStr ''d'')])]"
  let ?ds = "\<lparr>find_column_identifier = (\<lambda>n. if n = ''c'' then PObj 1 else PNone),
            find_column_timestamp_identifier = (\<lambda>n. if n = ''c'' then PObj 2 else PNone),
            gather = (\<lambda>src (s::unit) xi yi an. (Inr (PObj 3), s))\<rparr>"
  let ?a = "\<lparr>plot_pairs = None,
           yaml_plot = Some [(''plots'', [(''p'', [[(''y'', PStr ''d'')]])])],
           output_file = None, log_files = Some [''log.csv''], network_server = None,
           list_variables = False, animate = False\<rparr>"
  have x1: "dict_get ?e ''x'' = Inr (PStr ''timestamp'')"
    by (simp add: dict_get_def)
  have y1: "dict_get ?e ''y'' = Inr (PStr ''d'')"
    by (simp add: dict_get_def)
  have x2: "dict_get [(''x'', PStr ''c''), (''y'', PStr ''d'')] ''x'' = Inr (PStr ''c'')"
    by (simp add: dict_get_def)
  have y2: "dict_get [(''x'', PStr ''c''), (''y'', PStr ''d'')] ''y'' = Inr (PStr ''d'')"
    by (simp add: dict_get_def)
  have b: "build_plots ?a = Inr [[?e]]"
    by (simp add: build_plots_def given_def arg_value_def create_subplots_from_yaml_def yaml_entry_def
        dict_has_def dict_get_def)
  have m: "main ?ds () ?a
       = ([NewLogLoader, LoadFiles [''log.csv''], Subplots 1, FindColumn ''d'',
           FindTimestamp ''d''],
          Inl (ValueError ''failed to find x data for timestamp (with y of d) ''))"
    by (simp add: main_def b given_def arg_value_def open_data_source_def
        resolve_entry_def resolve_x_def x_lookup_def dict_get_def)
  show ?thesis
    using column_not_found_is_fatal [OF x1 y1, of ?ds 0 ?a "[[?e]]" "()"]
      column_not_found_is_fatal [OF x2 y2, of ?ds 0] x1 y1 x2 b m
    by (simp add: resolve_x_def)
qed

section \<open>The frame of \<^verbatim>\<open>gather_new_data\<close>\<close>

lemma gather_entry_frame:
  assumes "gather_entry g s e mode = (Inr e', s')"
  shows "AList.delete ''data'' e' = AList.delete ''data'' e"
    and "k \<noteq> ''data'' \<Longrightarrow> dict_get e' k = dict_get e k"
  using assms
  by (auto simp add: gather_entry_def dict_set_def dict_get_def update_conv' delete_update_same
      split: sum.splits prod.splits option.splits)

text \<open>
  Claim C9. \<^verbatim>\<open>gather_new_data\<close> writes only the \<^verbatim>\<open>'data'\<close> field of the entries: whatever the
  list, the mode flag and the data source, and whether or not the call ends in an
  exception, the list has the same length afterwards, and every entry has under every key
  other than \<^verbatim>\<open>'data'\<close> what it had before (with \<^verbatim>\<open>'data'\<close> deleted the entries are the same,
  keys in the same order).
\<close>

theorem gather_new_data_frame:
  "gather_new_data g s plot_info mode = (r, plot_info', s') \<Longrightarrow>
   length plot_info' = length plot_info
   \<and> (\<forall>i < length plot_info. \<forall>k. k \<noteq> ''data'' \<longrightarrow>
         dict_get (plot_info' ! i) k = dict_get (plot_info ! i) k)
   \<and> map (AList.delete ''data'') plot_info' = map (AList.delete ''data'') plot_info"
proof (induction plot_info arbitrary: s r plot_info' s')
  case Nil
  then show ?case by simp
next
  case (Cons e es)
  obtain res s1 where ge: "gather_entry g s e mode = (res, s1)"
    by (cases "gather_entry g s e mode")
  show ?case
  proof (cases res)
    case (Inl err)
    then have "plot_info' = e # es"
      using Cons.prems ge by simp
    then show ?thesis by simp
  next
    case (Inr e')
    obtain r2 es' s2 where rest: "gather_new_data g s1 es mode = (r2, es', s2)"
      by (cases "gather_new_data g s1 es mode")
    have pi: "plot_info' = e' # es'"
      using Cons.prems ge Inr rest by simp
    have ih: "length es' = length es
       \<and> (\<forall>i < length es. \<forall>k. k \<noteq> ''data'' \<longrightarrow> dict_get (es' ! i) k = dict_get (es ! i) k)
       \<and> map (AList.delete ''data'') es' = map (AList.delete ''data'') es"
      using Cons.IH [OF rest] .
    have ge': "gather_entry g s e mode = (Inr e', s1)"
      using ge Inr by simp
    have hd1: "AList.delete ''data'' e' = AList.delete ''data'' e"
      by (rule gather_entry_frame(1) [OF ge'])
    have hd2: "\<And>k. k \<noteq> ''data'' \<Longrightarrow> dict_get e' k = dict_get e k"
      by (rule gather_entry_frame(2) [OF ge'])
    have nth: "\<forall>i < length (e # es). \<forall>k. k \<noteq> ''data'' \<longrightarrow>
         dict_get ((e' # es') ! i) k = dict_get ((e # es) ! i) k"
    proof (intro allI impI)
      fix i k assume i: "i < length (e # es)" and k: "k \<noteq> ''data''"
      show "dict_get ((e' # es') ! i) k = dict_get ((e # es) ! i) k"
      proof (cases i)
        case 0
        then show ?thesis using hd2 [OF k] by simp
      next
        case (Suc j)
        then show ?thesis using ih i k by simp
      qed
    qed
    show ?thesis
      using ih hd1 nth by (simp add: pi)
  qed
qed

theorem gather_new_data_frame_witness:
  "gather_new_data (\<lambda>src s xi yi an. (Inr (PList [xi, yi]), Suc s)) (0::nat)
      [[(''x'', PStr ''timestamp''), (''y'', PStr ''c''), (''xident'', PObj 2),
        (''yident'', PObj 1), (''data_source'', PDataSource)],
       [(''x'', PStr ''a''), (''y'', PStr ''b'')]] True
     = (Some (KeyError ''data_source''),
        [[(''x'', PStr ''timestamp''), (''y'', PStr ''c''), (''xident'', PObj 2),
          (''yident'', PObj 1), (''data_source'', PDataSource),
          (''data'', PList [PObj 2, PObj 1])],
         [(''x'', PStr ''a''), (''y'', PStr ''b'')]], 1)
   \<and> dict_get [(''x'', PStr ''timestamp''), (''y'', PStr ''c''), (''xident'', PObj 2),
          (''yident'', PObj 1), (''data_source'', PDataSource),
          (''data'', PList [PObj 2, PObj 1])] ''xident'' = Inr (PObj 2)"
proof -
  have run: "gather_new_data (\<lambda>src s xi yi an. (Inr (PList [xi, yi]), Suc s)) (0::nat)
      [[(''x'', PStr ''timestamp''), (''y'', PStr ''c''), (''xident'', PObj 2),
        (''yident'', PObj 1), (''data_source'', PDataSource)],
       [(''x'', PStr ''a''), (''y'', PStr ''b'')]] True
     = (Some (KeyError ''data_source''),
        [[(''x'', PStr ''timestamp''), (''y'', PStr ''c''), (''xident'', PObj 2),
          (''yident'', PObj 1), (''data_source'', PDataSource),
          (''data'', PList [PObj 2, PObj 1])],
         [(''x'', PStr ''a''), (''y'', PStr ''b'')]], 1)"
    by (simp add: gather_entry_def dict_get_def dict_set_def)
  show ?thesis
    using gather_new_data_frame [OF run] run by (simp add: dict_get_def)
qed

section \<open>A YAML entry without \<open>y\<close>\<close>

lemma yaml_entry_error: "yaml_entry e = Inl err \<Longrightarrow> err = KeyError ''y''"
  by (auto simp add: yaml_entry_def dict_get_def dict_has_def split: if_splits option.splits sum.splits)

lemma yaml_entry_missing_y: "\<not> dict_has e ''y'' \<Longrightarrow> yaml_entry e = Inl (KeyError ''y'')"
  by (auto simp add: yaml_entry_def dict_get_def dict_has_def split: if_splits option.splits sum.splits)

lemma yaml_subplot_error: "yaml_subplot es = Inl err \<Longrightarrow> err = KeyError ''y''"
  by (induction es) (auto split: sum.splits dest: yaml_entry_error)

lemma yaml_subplot_missing_y:
  "e \<in> set es \<Longrightarrow> \<not> dict_has e ''y'' \<Longrightarrow> yaml_subplot es = Inl (KeyError ''y'')"
proof (induction es)
  case Nil
  then show ?case by simp
next
  case (Cons a es)
  show ?case
  proof (cases "yaml_entry a")
    case (Inl err)
    then show ?thesis using yaml_entry_error [OF Inl] by simp
  next
    case (Inr p)
    then have "a \<noteq> e"
      using yaml_entry_missing_y [OF Cons.prems(2)] by auto
    then have "yaml_subplot es = Inl (KeyError ''y'')"
      using Cons by simp
    then show ?thesis using Inr by simp
  qed
qed

lemma yaml_subplots_error: "yaml_subplots ps = Inl err \<Longrightarrow> err = KeyError ''y''"
  by (induction ps) (auto split: sum.splits dest: yaml_subplot_error)

lemma yaml_subplots_missing_y:
  "(key, es) \<in> set ps \<Longrightarrow> e \<in> set es \<Longrightarrow> \<not> dict_has e ''y'' \<Longrightarrow>
   yaml_subplots ps = Inl (KeyError ''y'')"
proof (induction ps)
  case Nil
  then show ?case by simp
next
  case (Cons p ps)
  obtain k' es' where p: "p = (k', es')" by (cases p)
  show ?case
  proof (cases "yaml_subplot es'")
    case (Inl err)
    then show ?thesis using yaml_subplot_error [OF Inl] by (simp add: p)
  next
    case (Inr sp)
    then have "es' \<noteq> es"
      using yaml_subplot_missing_y [OF Cons.prems(2,3)] by auto
    then have "yaml_subplots ps = Inl (KeyError ''y'')"
      using Cons p by simp
    then show ?thesis using Inr by (simp add: p)
  qed
qed

text \<open>
  Claim C8. A YAML document with an entry that lacks the key \<open>y\<close> makes
  \<^verbatim>\<open>create_subplots_from_yaml\<close> fail (with \<open>KeyError\<close> for \<open>y\<close>), and when \<^verbatim>\<open>main\<close> builds its
  plots from that document the session ends with this exception before the data source
  is constructed or asked for anything: the only call made on a collaborator is the
  choice of the matplotlib backend, when an output file is given.
\<close>

theorem yaml_entry_without_y_is_fatal:
  assumes "map_of contents ''plots'' = Some plots" and "(key, entries) \<in> set plots"
    and "entry \<in> set entries" and "\<not> dict_has entry ''y''"
  shows "create_subplots_from_yaml contents = Inl (KeyError ''y'')
       \<and> (\<not> given (plot_pairs a) \<and> yaml_plot a = Some contents \<longrightarrow>
            main ds s a = (if given (output_file a) then [UseAgg] else [], Inl (KeyError ''y'')))"
proof -
  have c: "create_subplots_from_yaml contents = Inl (KeyError ''y'')"
    using assms yaml_subplots_missing_y by (simp add: create_subplots_from_yaml_def)
  then show ?thesis
    by (simp add: main_def build_plots_def)
qed

theorem yaml_entry_without_y_is_fatal_witness:
  "map_of [(''plots'', [(''p'', [[(''y'', PStr ''c'')], [(''x'', PStr ''a'')]])])] ''plots''
     = Some [(''p'', [[(''y'', PStr ''c'')], [(''x'', PStr ''a'')]])]
   \<and> (''p'', [[(''y'', PStr ''c'')], [(''x'', PStr ''a'')]])
       \<in> set [(''p'', [[(''y'', PStr ''c'')], [(''x'', PStr ''a'')]])]
   \<and> [(''x'', PStr ''a'')] \<in> set [[(''y'', PStr ''c'')], [(''x'', PStr ''a'')]]
   \<and> \<not> dict_has [(''x'', PStr ''a'')] ''y''
   \<and> \<not> given (plot_pairs \<lparr>plot_pairs = None,
           yaml_plot = Some [(''plots'', [(''p'', [[(''y'', PStr ''c'')], [(''x'', PStr ''a'')]])])],
           output_file = Some ''out.png'', log_files = Some [''log.csv''],
           network_server = None, list_variables = False, animate = False\<rparr>)
   \<and> create_subplots_from_yaml
        [(''plots'', [(''p'', [[(''y'', PStr ''c'')], [(''x'', PStr ''a'')]])])]
       = Inl (KeyError ''y'')
   \<and> main \<lparr>find_column_identifier = (\<lambda>n. PObj 1),
            find_column_timestamp_identifier = (\<lambda>n. PObj 2),
            gather = (\<lambda>src (s::unit) xi yi an. (Inr (PObj 3), s))\<rparr> ()
          \<lparr>plot_pairs = None,
           yaml_plot = Some [(''plots'', [(''p'', [[(''y'', PStr ''c'')], [(''x'', PStr ''a'')]])])],
           output_file = Some ''out.png'', log_files = Some [''log.csv''],
           network_server = None, list_variables = False, animate = False\<rparr>
       = ([UseAgg], Inl (KeyError ''y''))"
proof -
  let ?c = "[(''plots'', [(''p'', [[(''y'', PStr ''c'')], [(''x'', PStr ''a'')]])])]"
  let ?a = "\<lparr>plot_pairs = None, yaml_plot = Some ?c,
           output_file = Some ''out.png'', log_files = Some [''log.csv''],
           network_server = None, list_variables = False, animate = False\<rparr>"
  have h1: "map_of ?c ''plots'' = Some [(''p'', [[(''y'', PStr ''c'')], [(''x'', PStr ''a'')]])]"
    by simp
  have h2: "(''p'', [[(''y'', PStr ''c'')], [(''x'', PStr ''a'')]])
       \<in> set [(''p'', [[(''y'', PStr ''c'')], [(''x'', PStr ''a'')]])]"
    by simp
  have h3: "[(''x'', PStr ''a'')] \<in> set [[(''y'', PStr ''c'')], [(''x'', PStr ''a'')]]"
    by simp
  have h4: "\<not> dict_has [(''x'', PStr ''a'')] ''y''"
    by (simp add: dict_has_def)
  have h5: "\<not> given (plot_pairs ?a)"
    by (simp add: given_def)
  show ?thesis
    using yaml_entry_without_y_is_fatal [OF h1 h2 h3 h4, of ?a
        "\<lparr>find_column_identifier = (\<lambda>n. PObj 1),
            find_column_timestamp_identifier = (\<lambda>n. PObj 2),
            gather = (\<lambda>src (s::unit) xi yi an. (Inr (PObj 3), s))\<rparr>" "()"] h1 h2 h3 h4 h5
    by (simp add: given_def)
qed

end
